theory Spec2Isabelle
  imports Complex_Main "HOL-Library.Log_Nat" "HOL-Library.Multiset" "HOL-Library.Sublist"
begin

section \<open>JavaScript numbers\<close>

text \<open>
  The dashboard computes with JavaScript \<^verbatim>\<open>number\<close>s, the binary64 format of
  IEEE 754. Their arithmetic never throws: a division by zero yields \<^verbatim>\<open>Infinity\<close>,
  \<^verbatim>\<open>-Infinity\<close> or \<^verbatim>\<open>NaN\<close>, and these values flow through every later operation.
  A number is a finite value other than the negative zero (\<open>Num x\<close>, with \<open>Num 0\<close> the
  positive zero), the negative zero, one of the two infinities, or \<^verbatim>\<open>NaN\<close>. Every
  operation computes the exact real result and rounds it to the nearest value of
  the format, a tie going to the value whose last bit is even; a result beyond the
  largest finite value becomes an infinity, and one below the smallest normal value
  is rounded on the fixed grid of the subnormal values, possibly to a zero.
\<close>

datatype number = Num real | NegZero | Infinity | NegInfinity | NaN

text \<open>The number of binary digits of a natural number.\<close>

fun bitLength :: "nat \<Rightarrow> nat" where
  "bitLength n = (if n = 0 then 0 else Suc (bitLength (n div 2)))"

declare bitLength.simps [simp del]

definition pow2 :: "int \<Rightarrow> real" where
  "pow2 e = (if 0 \<le> e then 2 ^ nat e else 1 / 2 ^ nat (- e))"

text \<open>For a positive \<open>x\<close>, the exponent \<open>k\<close> with \<open>2\<^sup>k \<le> x < 2\<^sup>k\<^sup>+\<^sup>1\<close>.\<close>

definition floorlog2 :: "real \<Rightarrow> int" where
  "floorlog2 x =
     (if 1 \<le> x then int (bitLength (nat \<lfloor>x\<rfloor>)) - 1
      else - int (bitLength (nat (\<lceil>1 / x\<rceil> - 1))))"

definition roundHalfEven :: "real \<Rightarrow> int" where
  "roundHalfEven q =
     (let f = \<lfloor>q\<rfloor>; r = q - of_int f
      in if r < 1 / 2 then f else if 1 / 2 < r then f + 1
         else if even f then f else f + 1)"

definition signed_zero :: "bool \<Rightarrow> number" where
  "signed_zero negative = (if negative then NegZero else Num 0)"

definition signed_infinity :: "bool \<Rightarrow> number" where
  "signed_infinity positive = (if positive then Infinity else NegInfinity)"

text \<open>
  Rounding of a real to the format: 53 significant bits, the last of them worth
  \<open>2\<^sup>e\<close>, where \<open>e\<close> is never below -1074; a rounded magnitude of \<open>2\<^sup>1\<^sup>0\<^sup>2\<^sup>4\<close> or more is an
  infinity.
\<close>

definition round64 :: "real \<Rightarrow> number" where
  "round64 x =
     (if x = 0 then Num 0
      else
        let e = max (floorlog2 \<bar>x\<bar> - 52) (- 1074);
            m = roundHalfEven (\<bar>x\<bar> / pow2 e);
            y = of_int m * pow2 e
        in if pow2 1024 \<le> y then signed_infinity (0 < x)
           else if m = 0 then signed_zero (x < 0)
           else Num (if x < 0 then - y else y))"

text \<open>The value of a decimal literal of the source text.\<close>

definition literal :: "real \<Rightarrow> number" where
  "literal x = round64 x"

text \<open>
  A magnitude from the smallest normal value up to \<open>2\<^sup>1\<^sup>0\<^sup>2\<^sup>3\<close>: rounding it neither
  overflows nor loses bits to the subnormal grid.
\<close>

definition inRange :: "real \<Rightarrow> bool" where
  "inRange x \<longleftrightarrow> pow2 (- 1022) \<le> \<bar>x\<bar> \<and> \<bar>x\<bar> < pow2 1023"

fun isZero :: "number \<Rightarrow> bool" where
  "isZero (Num x) = (x = 0)"
| "isZero NegZero = True"
| "isZero _ = False"

fun isNegative :: "number \<Rightarrow> bool" where
  "isNegative (Num x) = (x < 0)"
| "isNegative NegZero = True"
| "isNegative NegInfinity = True"
| "isNegative _ = False"

fun isInfinity :: "number \<Rightarrow> bool" where
  "isInfinity Infinity = True"
| "isInfinity NegInfinity = True"
| "isInfinity _ = False"

fun finiteValue :: "number \<Rightarrow> real" where
  "finiteValue (Num x) = x"
| "finiteValue _ = 0"

text \<open>A value the format holds: rounding leaves it as it is.\<close>

fun isNumber :: "number \<Rightarrow> bool" where
  "isNumber (Num x) = (round64 x = Num x)"
| "isNumber _ = True"

fun num_neg :: "number \<Rightarrow> number" where
  "num_neg (Num x) = (if x = 0 then NegZero else Num (- x))"
| "num_neg NegZero = Num 0"
| "num_neg Infinity = NegInfinity"
| "num_neg NegInfinity = Infinity"
| "num_neg NaN = NaN"

definition num_add :: "number \<Rightarrow> number \<Rightarrow> number" where
  "num_add a b =
     (if a = NaN \<or> b = NaN then NaN
      else if isInfinity a then (if isInfinity b \<and> a \<noteq> b then NaN else a)
      else if isInfinity b then b
      else
        let x = finiteValue a + finiteValue b
        in if x = 0 then signed_zero (isNegative a \<and> isNegative b) else round64 x)"

definition num_sub :: "number \<Rightarrow> number \<Rightarrow> number" where
  "num_sub a b = num_add a (num_neg b)"

definition num_mul :: "number \<Rightarrow> number \<Rightarrow> number" where
  "num_mul a b =
     (if a = NaN \<or> b = NaN then NaN
      else if isInfinity a \<or> isInfinity b then
        (if isZero a \<or> isZero b then NaN
         else signed_infinity (isNegative a = isNegative b))
      else
        let x = finiteValue a * finiteValue b
        in if x = 0 then signed_zero (isNegative a \<noteq> isNegative b) else round64 x)"

definition num_div :: "number \<Rightarrow> number \<Rightarrow> number" where
  "num_div a b =
     (if a = NaN \<or> b = NaN then NaN
      else if isInfinity a then
        (if isInfinity b then NaN else signed_infinity (isNegative a = isNegative b))
      else if isInfinity b then signed_zero (isNegative a \<noteq> isNegative b)
      else if isZero b then
        (if isZero a then NaN else signed_infinity (isNegative a = isNegative b))
      else if isZero a then signed_zero (isNegative a \<noteq> isNegative b)
      else round64 (finiteValue a / finiteValue b))"

section \<open>Portfolio tracker\<close>

datatype HoldingType = Stock | Crypto | Etf | Commodity

record Holding =
  id :: string
  symbol :: string
  name :: string
  type :: HoldingType
  quantity :: number
  currentPrice :: number
  averageCost :: number
  change :: number

text \<open>
  The locals of the two places that value a holding: the reducer of
  \<^verbatim>\<open>totalGainLoss\<close> (\<open>currentValue\<close>, \<open>costBasis\<close>) and the body of
  \<^verbatim>\<open>holdings.map\<close> (\<open>currentValue\<close>, \<open>gainLoss\<close>, \<open>gainLossPercent\<close>).
\<close>

definition currentValue :: "Holding \<Rightarrow> number" where
  "currentValue holding = num_mul (quantity holding) (currentPrice holding)"

definition costBasis :: "Holding \<Rightarrow> number" where
  "costBasis holding = num_mul (quantity holding) (averageCost holding)"

definition gainLoss :: "Holding \<Rightarrow> number" where
  "gainLoss holding =
     num_sub (currentValue holding) (num_mul (quantity holding) (averageCost holding))"

definition gainLossPercent :: "Holding \<Rightarrow> number" where
  "gainLossPercent holding =
     num_mul
       (num_div (gainLoss holding) (num_mul (quantity holding) (averageCost holding)))
       (Num 100)"

definition totalGainLoss :: "Holding list \<Rightarrow> number" where
  "totalGainLoss holdings =
     foldl (\<lambda>sum holding. num_add sum (num_sub (currentValue holding) (costBasis holding)))
       (Num 0) holdings"

definition totalGainLossPercent :: "number \<Rightarrow> Holding list \<Rightarrow> number" where
  "totalGainLossPercent portfolioValue holdings =
     num_mul
       (num_div (totalGainLoss holdings) (num_sub portfolioValue (totalGainLoss holdings)))
       (Num 100)"

text \<open>The initial state of the component.\<close>

definition initialPortfolioValue :: number where
  "initialPortfolioValue = literal 125430.75"

definition aapl :: Holding where
  "aapl = \<lparr> id = ''1'', symbol = ''AAPL'', name = ''Apple Inc.'', type = Stock,
     quantity = literal 50, currentPrice = literal 175.25, averageCost = literal 165.50,
     change = literal 2.3 \<rparr>"

definition initialHoldings :: "Holding list" where
  "initialHoldings =
    [ aapl,
      \<lparr> id = ''2'', symbol = ''BTC'', name = ''Bitcoin'', type = Crypto,
        quantity = literal 0.5, currentPrice = literal 62500.75,
        averageCost = literal 58000.00,
        change = literal 5.8 \<rparr>,
      \<lparr> id = ''3'', symbol = ''ETH'', name = ''Ethereum'', type = Crypto,
        quantity = literal 3.2, currentPrice = literal 3250.50,
        averageCost = literal 3100.00,
        change = literal 1.9 \<rparr>,
      \<lparr> id = ''4'', symbol = ''GLD'', name = ''SPDR Gold Shares'', type = Commodity,
        quantity = literal 25, currentPrice = literal 185.75, averageCost = literal 180.25,
        change = num_neg (literal 0.5) \<rparr>,
      \<lparr> id = ''5'', symbol = ''NVDA'', name = ''NVIDIA Corp'', type = Stock,
        quantity = literal 15, currentPrice = literal 950.25, averageCost = literal 850.50,
        change = literal 8.2 \<rparr> ]"

section \<open>Economic calendar\<close>

datatype Surprise = Positive | Negative | Neutral

record EconomicEvent =
  id :: string
  time :: string
  name :: string
  country :: string
  importance :: int
  forecast :: string
  actual :: string
  surprise :: Surprise

text \<open>
  The source types \<open>importance\<close> as \<^verbatim>\<open>1 | 2 | 3 | 4 | 5\<close>; the model takes an integer
  and states the range where a property needs it.
\<close>

record CalendarState =
  selectedDate :: string
  events :: "EconomicEvent list"

definition initialEvents :: "EconomicEvent list" where
  "initialEvents =
    [ \<lparr> id = ''1'', time = ''08:30 ET'', name = ''CPI Inflation'', country = ''US'',
        importance = 5, forecast = ''3.2%'', actual = ''3.1%'', surprise = Positive \<rparr>,
      \<lparr> id = ''2'', time = ''08:30 ET'', name = ''Retail Sales'', country = ''US'',
        importance = 4, forecast = ''+0.4%'', actual = ''+0.6%'', surprise = Positive \<rparr>,
      \<lparr> id = ''3'', time = ''10:00 ET'', name = ''Business Inventories'', country = ''US'',
        importance = 2, forecast = ''+0.2%'', actual = ''+0.1%'', surprise = Negative \<rparr>,
      \<lparr> id = ''4'', time = ''11:30 ET'', name = ''4-Week Bill Auction'', country = ''US'',
        importance = 3, forecast = ''4.85%'', actual = ''4.82%'', surprise = Positive \<rparr>,
      \<lparr> id = ''5'', time = ''13:00 ET'', name = ''3-Yr Note Auction'', country = ''US'',
        importance = 3, forecast = ''4.25%'', actual = ''4.28%'', surprise = Negative \<rparr>,
      \<lparr> id = ''6'', time = ''14:00 ET'', name = ''Treasury Buyback Results'', country = ''US'',
        importance = 2, forecast = ''N/A'', actual = ''Completed'', surprise = Neutral \<rparr>,
      \<lparr> id = ''7'', time = ''15:15 ET'', name = ''Raphael Bostic Speaks'', country = ''US'',
        importance = 4, forecast = ''N/A'', actual = ''Scheduled'', surprise = Neutral \<rparr> ]"

definition initialCalendar :: CalendarState where
  "initialCalendar = \<lparr> selectedDate = ''2026-02-13'', events = initialEvents \<rparr>"

text \<open>The date input's \<^verbatim>\<open>onChange\<close> handler.\<close>

definition setSelectedDate :: "string \<Rightarrow> CalendarState \<Rightarrow> CalendarState" where
  "setSelectedDate date st = st\<lparr> selectedDate := date \<rparr>"

definition highImpactEvents :: "EconomicEvent list \<Rightarrow> EconomicEvent list" where
  "highImpactEvents evs = filter (\<lambda>event. importance event \<ge> 4) evs"

definition mediumImpactEvents :: "EconomicEvent list \<Rightarrow> EconomicEvent list" where
  "mediumImpactEvents evs = filter (\<lambda>event. importance event = 3) evs"

definition lowImpactEvents :: "EconomicEvent list \<Rightarrow> EconomicEvent list" where
  "lowImpactEvents evs = filter (\<lambda>event. importance event \<le> 2) evs"

definition getImportanceColor :: "int \<Rightarrow> string" where
  "getImportanceColor imp =
     (if imp = 5 then ''bg-red-100 dark:bg-red-900 text-red-800 dark:text-red-200''
      else if imp = 4 then
        ''bg-orange-100 dark:bg-orange-900 text-orange-800 dark:text-orange-200''
      else if imp = 3 then
        ''bg-yellow-100 dark:bg-yellow-900 text-yellow-800 dark:text-yellow-200''
      else if imp = 2 then ''bg-blue-100 dark:bg-blue-900 text-blue-800 dark:text-blue-200''
      else ''bg-gray-100 dark:bg-gray-900 text-gray-800 dark:text-gray-200'')"

text \<open>
  The badge in front of \<^verbatim>\<open>Impact n\<close>: a fire emoji for 5, a warning sign for 4, the
  empty string otherwise. The two emoji are written as constructors.
\<close>

datatype ImportanceIcon = Fire | Warning | NoIcon

definition importanceIcon :: "int \<Rightarrow> ImportanceIcon" where
  "importanceIcon imp = (if imp = 5 then Fire else if imp = 4 then Warning else NoIcon)"

text \<open>
  The list the component renders, one card per element and in this order:
  \<^verbatim>\<open>events.map((event) => ...)\<close>. The state's \<open>selectedDate\<close> is not read.
\<close>

definition displayedEvents :: "CalendarState \<Rightarrow> EconomicEvent list" where
  "displayedEvents st = events st"

text \<open>
  Modelled from the spec: \<open>filterEventsByDate\<close> and the \<open>releaseDate\<close> of an event.
  The source has neither; the release date is taken as a function of the event and the
  filter keeps, in order, the events whose release date is the given date.
\<close>

definition filterEventsByDate ::
  "(EconomicEvent \<Rightarrow> string) \<Rightarrow> EconomicEvent list \<Rightarrow> string \<Rightarrow> EconomicEvent list" where
  "filterEventsByDate releaseDate evs date = filter (\<lambda>event. releaseDate event = date) evs"

text \<open>
  The source has no \<open>classifySurprise\<close> and reads no value string as a number: each
  event carries its \<open>surprise\<close> as data. The function and its parser are taken from the
  spec. A numeric value string is an optional sign, digits, optionally a point and
  more digits, and optionally the suffix \<^verbatim>\<open>%\<close>; anything else is non-numeric.
\<close>

text \<open>Modelled from the spec: the characters of a decimal (\<open>classifySurprise\<close>'s parser).\<close>

definition isDigit :: "char \<Rightarrow> bool" where
  "isDigit c = (c \<in> set ''0123456789'')"

text \<open>Modelled from the spec: the value of a decimal digit (\<open>classifySurprise\<close>'s parser).\<close>

definition digitValue :: "char \<Rightarrow> nat" where
  "digitValue c = of_char c - 48"

text \<open>Modelled from the spec: the number a run of decimal digits denotes.\<close>

definition digitsValue :: "string \<Rightarrow> nat" where
  "digitsValue ds = foldl (\<lambda>acc c. 10 * acc + digitValue c) 0 ds"

text \<open>Modelled from the spec: the numeric suffix \<^verbatim>\<open>%\<close> is stripped.\<close>

definition stripPercent :: "string \<Rightarrow> string" where
  "stripPercent s = (if s \<noteq> [] \<and> last s = CHR ''%'' then butlast s else s)"

text \<open>Modelled from the spec: the sign of a signed decimal, and what follows it.\<close>

fun splitSign :: "string \<Rightarrow> real \<times> string" where
  "splitSign [] = (1, [])"
| "splitSign (c # cs) =
     (if c = CHR ''+'' then (1, cs) else if c = CHR ''-'' then (- 1, cs) else (1, c # cs))"

text \<open>
  Modelled from the spec: the parse of a value string as a signed decimal; \<open>None\<close> for a
  non-numeric string such as \<^verbatim>\<open>N/A\<close>, \<^verbatim>\<open>Scheduled\<close> or \<^verbatim>\<open>Completed\<close>.
\<close>

definition parseDecimal :: "string \<Rightarrow> real option" where
  "parseDecimal s =
     (let (sgn, body) = splitSign (stripPercent s);
          whole = takeWhile isDigit body;
          rest = dropWhile isDigit body
      in if whole = [] then None
         else (case rest of
                 [] \<Rightarrow> Some (sgn * real (digitsValue whole))
               | c # decimals \<Rightarrow>
                   if c = CHR ''.'' \<and> decimals \<noteq> [] \<and> list_all isDigit decimals
                   then Some (sgn * (real (digitsValue whole)
                                      + real (digitsValue decimals) / 10 ^ length decimals))
                   else None))"

text \<open>
  Modelled from the spec: \<open>classifySurprise(actual, forecast)\<close>, neutral when either
  string is non-numeric, and otherwise positive, negative or neutral as the actual is
  above, below or equal to the forecast.
\<close>

definition classifySurprise :: "string \<Rightarrow> string \<Rightarrow> Surprise" where
  "classifySurprise act fc =
     (case (parseDecimal act, parseDecimal fc) of
        (Some x, Some y) \<Rightarrow> if x > y then Positive else if x < y then Negative else Neutral
      | _ \<Rightarrow> Neutral)"

section \<open>Strategy builder\<close>

datatype AssetClass = Equities | CryptoAssets | Commodities | Multi

datatype Status = Active | Backtesting | Paused

record Strategy =
  id :: string
  name :: string
  description :: string
  assetClass :: AssetClass
  sharpeRatio :: number
  totalReturn :: number
  maxDrawdown :: number
  status :: Status

text \<open>The form state \<^verbatim>\<open>newStrategy\<close>.\<close>

record NewStrategy =
  name :: string
  description :: string
  assetClass :: AssetClass

record BuilderState =
  strategies :: "Strategy list"
  newStrategy :: NewStrategy

definition initialStrategies :: "Strategy list" where
  "initialStrategies =
    [ \<lparr> id = ''1'', name = ''CPI Momentum'',
        description = ''Buy when CPI < 3%, sell when > 5%'', assetClass = Equities,
        sharpeRatio = literal 1.8, totalReturn = literal 24.5,
        maxDrawdown = num_neg (literal 8.2),
        status = Active \<rparr>,
      \<lparr> id = ''2'', name = ''Fed Speech Sentiment'',
        description = ''Long when Fed dovish, short when hawkish'', assetClass = Equities,
        sharpeRatio = literal 2.1, totalReturn = literal 32.1,
        maxDrawdown = num_neg (literal 6.5),
        status = Active \<rparr>,
      \<lparr> id = ''3'', name = ''Bitcoin Halving Cycle'',
        description = ''Accumulate 6 months pre-halving, distribute post'',
        assetClass = CryptoAssets,
        sharpeRatio = literal 3.2, totalReturn = literal 185.4,
        maxDrawdown = num_neg (literal 25.3),
        status = Active \<rparr>,
      \<lparr> id = ''4'', name = ''Gold Inflation Hedge'',
        description = ''Allocate to gold when real yields negative'',
        assetClass = Commodities,
        sharpeRatio = literal 1.5, totalReturn = literal 18.7,
        maxDrawdown = num_neg (literal 12.4),
        status = Backtesting \<rparr>,
      \<lparr> id = ''5'', name = ''Cross-Asset Risk Parity'',
        description = ''Risk-weighted allocation across stocks, bonds, gold, crypto'',
        assetClass = Multi,
        sharpeRatio = literal 2.4, totalReturn = literal 28.9,
        maxDrawdown = num_neg (literal 9.8),
        status = Paused \<rparr> ]"

definition emptyForm :: NewStrategy where
  "emptyForm = \<lparr> name = '''', description = '''', assetClass = Equities \<rparr>"

definition initialBuilder :: BuilderState where
  "initialBuilder = \<lparr> strategies = initialStrategies, newStrategy = emptyForm \<rparr>"

text \<open>
  \<^verbatim>\<open>String.prototype.trim\<close> removes white space and line terminators from both ends.
  A \<open>char\<close> is one byte, so of the characters \<^verbatim>\<open>trim\<close> removes the model has those
  below U+0100: tab, line feed, vertical tab, form feed, carriage return, space and
  the no-break space.
\<close>

definition isWhiteSpace :: "char \<Rightarrow> bool" where
  "isWhiteSpace c =
     (c \<in> set [CHR 0x09, CHR 0x0A, CHR 0x0B, CHR 0x0C, CHR 0x0D, CHR 0x20, CHR 0xA0])"

definition trim :: "string \<Rightarrow> string" where
  "trim s = rev (dropWhile isWhiteSpace (rev (dropWhile isWhiteSpace s)))"

text \<open>
  \<^verbatim>\<open>Date.now().toString()\<close>: the decimal digits of the clock's milliseconds since the
  epoch, a non-negative integer (below \<open>10\<^sup>2\<^sup>1\<close>, where JavaScript still prints an
  integer in full).
\<close>

fun toString :: "nat \<Rightarrow> string" where
  "toString n =
     (if n < 10 then [''0123456789'' ! n]
      else toString (n div 10) @ [''0123456789'' ! (n mod 10)])"

declare toString.simps [simp del]

text \<open>
  The click handler of the Create button. \<open>now\<close> is what \<^verbatim>\<open>Date.now()\<close> returns when
  the handler runs. An empty string is the only string that is false, so the guard
  \<^verbatim>\<open>!newStrategy.name.trim()\<close> holds exactly when the trimmed name is empty.
\<close>

definition handleCreateStrategy :: "nat \<Rightarrow> BuilderState \<Rightarrow> BuilderState" where
  "handleCreateStrategy now st =
     (if trim (NewStrategy.name (newStrategy st)) = [] then st
      else
        let newStrat = \<lparr> id = toString now,
              name = NewStrategy.name (newStrategy st),
              description = NewStrategy.description (newStrategy st),
              assetClass = NewStrategy.assetClass (newStrategy st),
              sharpeRatio = Num 0,
              totalReturn = Num 0,
              maxDrawdown = Num 0,
              status = Backtesting \<rparr>
        in st\<lparr> strategies := newStrat # strategies st,
               newStrategy := \<lparr> name = '''', description = '''', assetClass = Equities \<rparr> \<rparr>)"

text \<open>The handlers of the three form fields.\<close>

definition setName :: "string \<Rightarrow> BuilderState \<Rightarrow> BuilderState" where
  "setName v st = st\<lparr> newStrategy := (newStrategy st)\<lparr> name := v \<rparr> \<rparr>"

definition setDescription :: "string \<Rightarrow> BuilderState \<Rightarrow> BuilderState" where
  "setDescription v st = st\<lparr> newStrategy := (newStrategy st)\<lparr> description := v \<rparr> \<rparr>"

definition setAssetClass :: "AssetClass \<Rightarrow> BuilderState \<Rightarrow> BuilderState" where
  "setAssetClass v st = st\<lparr> newStrategy := (newStrategy st)\<lparr> assetClass := v \<rparr> \<rparr>"

section \<open>Facts about the number operations\<close>

subsection \<open>Evaluation on numerals\<close>

lemma bitLength_0: "bitLength 0 = 0"
  by (subst bitLength.simps) simp

lemma bitLength_pos: "0 < n \<Longrightarrow> bitLength n = Suc (bitLength (n div 2))"
  by (subst bitLength.simps) simp

lemmas round64_eval = round64_def floorlog2_def pow2_def roundHalfEven_def Let_def
  bitLength_0 bitLength_pos signed_zero_def signed_infinity_def

lemmas num_eval = num_add_def num_sub_def num_mul_def num_div_def round64_eval

subsection \<open>The exponent of a positive real\<close>

lemma bitLength_floorlog: "bitLength n = floorlog 2 n"
proof (induction n rule: bitLength.induct)
  case (1 n)
  show ?case
  proof (cases "n = 0")
    case True
    then show ?thesis
      by (subst bitLength.simps) (simp add: floorlog_eq_zero_iff)
  next
    case False
    with "1.IH" have "bitLength (n div 2) = floorlog 2 (n div 2)" by simp
    with False show ?thesis
      by (subst bitLength.simps, subst compute_floorlog) simp
  qed
qed

lemma bitLength_bounds:
  assumes "0 < n"
  shows "2 ^ (bitLength n - 1) \<le> n" and "n < 2 ^ bitLength n"
proof -
  have "2 ^ (floorlog 2 n - 1) \<le> n \<and> n < 2 ^ floorlog 2 n"
    using assms by (intro floorlog_bounds) simp_all
  then show "2 ^ (bitLength n - 1) \<le> n" and "n < 2 ^ bitLength n"
    by (simp_all only: bitLength_floorlog)
qed

lemma bitLength_pos_iff: "0 < bitLength n \<longleftrightarrow> 0 < n"
  using floorlog_eq_zero_iff [of 2 n] by (auto simp only: bitLength_floorlog)

lemma pow2_powi: "pow2 e = 2 powi e"
  by (simp add: pow2_def power_int_def inverse_eq_divide power_one_over)

lemma pow2_pos: "0 < pow2 e"
  by (simp add: pow2_powi)

lemma pow2_add: "pow2 (a + b) = pow2 a * pow2 b"
  by (simp add: pow2_powi power_int_add)

lemma pow2_mono: "a \<le> b \<Longrightarrow> pow2 a \<le> pow2 b"
  by (simp add: pow2_powi power_int_increasing)

lemma floorlog2_bounds:
  assumes "0 < x"
  shows "pow2 (floorlog2 x) \<le> x" and "x < pow2 (floorlog2 x + 1)"
proof -
  show "pow2 (floorlog2 x) \<le> x"
  proof (cases "1 \<le> x")
    case True
    define n where "n = nat \<lfloor>x\<rfloor>"
    have n: "0 < n" "real n \<le> x"
      using True by (simp_all add: n_def)
    have "floorlog2 x = int (bitLength n) - 1"
      using True by (simp add: floorlog2_def n_def)
    moreover have "0 < bitLength n" using n by (simp add: bitLength_pos_iff)
    ultimately have "pow2 (floorlog2 x) = 2 ^ (bitLength n - 1)"
      by (simp add: pow2_def nat_diff_distrib)
    also have "\<dots> \<le> real n"
    proof -
      have "real (2 ^ (bitLength n - 1)) \<le> real n"
        using bitLength_bounds(1) [OF n(1)] by (simp only: of_nat_le_iff)
      then show ?thesis by simp
    qed
    finally show ?thesis using n by simp
  next
    case False
    define c where "c = \<lceil>1 / x\<rceil>"
    define n where "n = nat (c - 1)"
    from False assms have y: "1 < 1 / x" by simp
    then have c: "2 \<le> c" "1 / x \<le> of_int c"
      by (simp_all add: c_def le_ceiling_iff)
    then have n: "0 < n" "int n = c - 1" by (simp_all add: n_def)
    have fl: "floorlog2 x = - int (bitLength n)"
      using False by (simp add: floorlog2_def n_def c_def)
    have "n < 2 ^ bitLength n" using bitLength_bounds(2) [OF n(1)] .
    then have "int n < int (2 ^ bitLength n)"
      by (simp only: of_nat_less_iff)
    then have "c \<le> 2 ^ bitLength n" using n by simp
    then have "real_of_int c \<le> real_of_int (2 ^ bitLength n)"
      by (simp only: of_int_le_iff)
    then have "real_of_int c \<le> 2 ^ bitLength n" by simp
    with c(2) have "1 / x \<le> 2 ^ bitLength n" by linarith
    with assms have "1 / 2 ^ bitLength n \<le> x"
      by (simp add: field_simps)
    moreover have "pow2 (floorlog2 x) = 1 / 2 ^ bitLength n"
      using n by (simp add: fl pow2_def bitLength_pos_iff)
    ultimately show ?thesis by simp
  qed
  show "x < pow2 (floorlog2 x + 1)"
  proof (cases "1 \<le> x")
    case True
    define n where "n = nat \<lfloor>x\<rfloor>"
    have n: "0 < n" "x < real n + 1"
      using True by (simp_all add: n_def)
    have pos: "0 < bitLength n" using n by (simp add: bitLength_pos_iff)
    have "floorlog2 x + 1 = int (bitLength n)"
      using True by (simp add: floorlog2_def n_def)
    then have "pow2 (floorlog2 x + 1) = 2 ^ bitLength n"
      by (simp add: pow2_def)
    moreover have "real n + 1 \<le> 2 ^ bitLength n"
    proof -
      have "Suc n \<le> 2 ^ bitLength n"
        using bitLength_bounds(2) [OF n(1)] by simp
      then have "real (Suc n) \<le> real (2 ^ bitLength n)"
        by (simp only: of_nat_le_iff)
      then show ?thesis by simp
    qed
    ultimately show ?thesis using n by simp
  next
    case False
    define c where "c = \<lceil>1 / x\<rceil>"
    define n where "n = nat (c - 1)"
    from False assms have y: "1 < 1 / x" by simp
    then have "1 < c" by (simp add: c_def less_ceiling_iff)
    then have n: "0 < n" "int n = c - 1" by (simp_all add: n_def)
    have lt: "of_int c - 1 < 1 / x"
      by (simp add: c_def) linarith
    have fl: "floorlog2 x = - int (bitLength n)"
      using False by (simp add: floorlog2_def n_def c_def)
    have pos: "0 < bitLength n" using n by (simp add: bitLength_pos_iff)
    have "2 ^ (bitLength n - 1) \<le> n" using bitLength_bounds(1) [OF n(1)] .
    then have "real (2 ^ (bitLength n - 1)) \<le> real n"
      by (simp only: of_nat_le_iff)
    then have "2 ^ (bitLength n - 1) \<le> real n" by simp
    also have "real n = of_int c - 1"
    proof -
      have "real_of_int (int n) = real_of_int (c - 1)" using n by simp
      then show ?thesis by simp
    qed
    finally have "2 ^ (bitLength n - 1) < 1 / x" using lt by simp
    with assms have "x < 1 / 2 ^ (bitLength n - 1)"
      by (simp add: field_simps)
    moreover have "pow2 (floorlog2 x + 1) = 1 / 2 ^ (bitLength n - 1)"
    proof -
      have "floorlog2 x + 1 = - int (bitLength n - 1)"
        using pos by (simp add: fl)
      then show ?thesis
        by (cases "bitLength n - 1 = 0") (simp_all add: pow2_def)
    qed
    ultimately show ?thesis by simp
  qed
qed


subsection \<open>Rounding is to a nearest value\<close>

lemma roundHalfEven_error: "\<bar>of_int (roundHalfEven q) - q\<bar> \<le> 1 / 2"
proof -
  have "0 \<le> q - of_int \<lfloor>q\<rfloor>" "q - of_int \<lfloor>q\<rfloor> < 1"
    by linarith+
  then show ?thesis
    by (auto simp: roundHalfEven_def Let_def)
qed

lemma round64_nonzero:
  "x \<noteq> 0 \<Longrightarrow> round64 x =
     (let e = max (floorlog2 \<bar>x\<bar> - 52) (- 1074);
          m = roundHalfEven (\<bar>x\<bar> / pow2 e);
          y = of_int m * pow2 e
      in if pow2 1024 \<le> y then signed_infinity (0 < x)
         else if m = 0 then signed_zero (x < 0)
         else Num (if x < 0 then - y else y))"
  by (simp only: round64_def if_False)

lemma round64_error:
  assumes "round64 x = Num y"
  shows "\<bar>y - x\<bar> \<le> max (\<bar>x\<bar> / 2 ^ 53) (1 / 2 ^ 1075)"
proof (cases "x = 0")
  case True
  with assms show ?thesis by (simp add: round64_def)
next
  case False
  define e where "e = max (floorlog2 \<bar>x\<bar> - 52) (- 1074)"
  define m where "m = roundHalfEven (\<bar>x\<bar> / pow2 e)"
  define y0 where "y0 = of_int m * pow2 e"
  have branches:
    "(if pow2 1024 \<le> y0 then signed_infinity (0 < x)
      else if m = 0 then signed_zero (x < 0)
      else Num (if x < 0 then - y0 else y0)) = Num y"
    unfolding e_def m_def y0_def
    using assms round64_nonzero [OF False] by (simp only: Let_def)
  have y: "y = (if x < 0 then - y0 else y0)"
  proof (cases "m = 0")
    case True
    with branches have "y0 = 0" "\<not> x < 0" "y = 0"
      by (auto simp: y0_def signed_zero_def signed_infinity_def pow2_pos
          split: if_splits)
    then show ?thesis by simp
  next
    case False
    with branches show ?thesis
      by (auto simp: signed_infinity_def split: if_splits)
  qed
  have "\<bar>y - x\<bar> = \<bar>y0 - \<bar>x\<bar>\<bar>"
    using y by (auto simp: abs_if)
  also have "\<dots> = \<bar>of_int m - \<bar>x\<bar> / pow2 e\<bar> * pow2 e"
  proof -
    have "y0 - \<bar>x\<bar> = (of_int m - \<bar>x\<bar> / pow2 e) * pow2 e"
      using pow2_pos [of e] by (simp add: y0_def field_simps)
    then show ?thesis
      using pow2_pos [of e] by (simp add: abs_mult)
  qed
  also have "\<dots> \<le> 1 / 2 * pow2 e"
    using roundHalfEven_error [of "\<bar>x\<bar> / pow2 e"] pow2_pos [of e]
    by (intro mult_right_mono) (simp_all add: m_def)
  also have "\<dots> \<le> max (\<bar>x\<bar> / 2 ^ 53) (1 / 2 ^ 1075)"
  proof (cases "- 1074 \<le> floorlog2 \<bar>x\<bar> - 52")
    case True
    then have "e = floorlog2 \<bar>x\<bar> + (- 52)" by (simp add: e_def)
    then have "pow2 e = pow2 (floorlog2 \<bar>x\<bar>) * pow2 (- 52)"
      by (simp only: pow2_add)
    also have "\<dots> \<le> \<bar>x\<bar> * pow2 (- 52)"
      using floorlog2_bounds(1) [of "\<bar>x\<bar>"] False pow2_pos [of "- 52"]
      by (intro mult_right_mono) simp_all
    finally have "1 / 2 * pow2 e \<le> \<bar>x\<bar> / 2 ^ 53"
      by (simp add: pow2_def)
    then show ?thesis by simp
  next
    case False
    then have "e = - 1074" by (simp add: e_def)
    then have "1 / 2 * pow2 e = 1 / 2 ^ 1075"
      by (simp add: pow2_def)
    then show ?thesis by simp
  qed
  finally show ?thesis .
qed

lemma num_mul_error:
  assumes "num_mul (Num a) (Num b) = Num v"
  shows "\<bar>v - a * b\<bar> \<le> max (\<bar>a * b\<bar> / 2 ^ 53) (1 / 2 ^ 1075)"
proof (cases "a * b = 0")
  case True
  with assms have "v = 0"
    by (auto simp: num_mul_def signed_zero_def split: if_splits)
  with True show ?thesis by auto
next
  case False
  with assms have "round64 (a * b) = Num v"
    by (simp add: num_mul_def)
  then show ?thesis by (rule round64_error)
qed


lemma num_add_error:
  assumes "num_add (Num a) (Num b) = Num v"
  shows "\<bar>v - (a + b)\<bar> \<le> max (\<bar>a + b\<bar> / 2 ^ 53) (1 / 2 ^ 1075)"
proof (cases "a + b = 0")
  case True
  with assms have "v = 0"
    by (auto simp: num_add_def signed_zero_def split: if_splits)
  with True show ?thesis by simp
next
  case False
  with assms have "round64 (a + b) = Num v"
    by (simp add: num_add_def)
  then show ?thesis by (rule round64_error)
qed

lemma num_sub_error:
  assumes "num_sub (Num a) (Num b) = Num v"
  shows "\<bar>v - (a - b)\<bar> \<le> max (\<bar>a - b\<bar> / 2 ^ 53) (1 / 2 ^ 1075)"
proof (cases "a - b = 0")
  case True
  with assms have "v = 0"
    by (auto simp: num_sub_def num_add_def signed_zero_def split: if_splits)
  with True show ?thesis by simp
next
  case False
  with assms have "round64 (a - b) = Num v"
    by (auto simp: num_sub_def num_add_def split: if_splits)
  then show ?thesis by (rule round64_error)
qed

subsection \<open>Powers of two scale exactly\<close>

lemma pow2_strict_mono: "a < b \<Longrightarrow> pow2 a < pow2 b"
  by (simp add: pow2_powi power_int_strict_increasing)

lemma pow2_le_iff: "pow2 a \<le> pow2 b \<longleftrightarrow> a \<le> b"
  using pow2_mono [of a b] pow2_strict_mono [of b a] by (auto simp: not_le [symmetric])

lemma floorlog2_unique:
  assumes "pow2 j \<le> x" and "x < pow2 (j + 1)"
  shows "floorlog2 x = j"
proof -
  have pos: "0 < x" using assms(1) pow2_pos [of j] by linarith
  note b = floorlog2_bounds [OF pos]
  have "\<not> floorlog2 x < j"
  proof
    assume "floorlog2 x < j"
    then have "pow2 (floorlog2 x + 1) \<le> pow2 j" by (intro pow2_mono) simp
    with b(2) assms(1) show False by linarith
  qed
  moreover have "\<not> j < floorlog2 x"
  proof
    assume "j < floorlog2 x"
    then have "pow2 (j + 1) \<le> pow2 (floorlog2 x)" by (intro pow2_mono) simp
    with b(1) assms(2) show False by linarith
  qed
  ultimately show ?thesis by simp
qed

lemma floorlog2_scale:
  assumes "0 < x"
  shows "floorlog2 (pow2 k * x) = floorlog2 x + k"
proof (rule floorlog2_unique)
  note b = floorlog2_bounds [OF assms]
  show "pow2 (floorlog2 x + k) \<le> pow2 k * x"
    using b(1) pow2_pos [of k] by (simp add: pow2_add mult.commute)
  have "pow2 k * x < pow2 k * pow2 (floorlog2 x + 1)"
    using b(2) pow2_pos [of k] by simp
  also have "\<dots> = pow2 (floorlog2 x + k + 1)"
    by (simp add: pow2_add [symmetric] ac_simps)
  finally show "pow2 k * x < pow2 (floorlog2 x + k + 1)" .
qed

lemma floorlog2_normal:
  assumes "pow2 (- 1022) \<le> x"
  shows "- 1022 \<le> floorlog2 x"
proof (rule ccontr)
  assume "\<not> - 1022 \<le> floorlog2 x"
  then have "pow2 (floorlog2 x + 1) \<le> pow2 (- 1022)" by (intro pow2_mono) simp
  moreover have "0 < x" using assms pow2_pos [of "- 1022"] by linarith
  ultimately show False using floorlog2_bounds(2) [of x] assms by linarith
qed

text \<open>Scaling by a power of two commutes with rounding in the normal range.\<close>

lemma round64_scale:
  assumes r: "round64 x = Num y"
    and x: "pow2 (- 1022) \<le> \<bar>x\<bar>" and kx: "pow2 (- 1022) \<le> pow2 k * \<bar>x\<bar>"
    and ky: "pow2 k * \<bar>y\<bar> < pow2 1024"
  shows "round64 (pow2 k * x) = Num (pow2 k * y)"
proof -
  have nz: "x \<noteq> 0" using x pow2_pos [of "- 1022"] by auto
  have knz: "pow2 k * x \<noteq> 0" using nz pow2_pos [of k] by simp
  have abs_scale: "\<bar>pow2 k * x\<bar> = pow2 k * \<bar>x\<bar>"
    using pow2_pos [of k] by (simp add: abs_mult)
  define e where "e = floorlog2 \<bar>x\<bar> - 52"
  define m where "m = roundHalfEven (\<bar>x\<bar> / pow2 e)"
  define y0 where "y0 = of_int m * pow2 e"
  have e: "max (floorlog2 \<bar>x\<bar> - 52) (- 1074) = e"
    using floorlog2_normal [OF x] by (simp add: e_def)
  have fl': "floorlog2 \<bar>pow2 k * x\<bar> = floorlog2 \<bar>x\<bar> + k"
    using nz by (simp add: abs_scale floorlog2_scale)
  have "- 1022 \<le> floorlog2 \<bar>pow2 k * x\<bar>"
    using kx by (intro floorlog2_normal) (simp add: abs_scale)
  then have e': "max (floorlog2 \<bar>pow2 k * x\<bar> - 52) (- 1074) = e + k"
    by (simp add: fl' e_def)
  have q': "\<bar>pow2 k * x\<bar> / pow2 (e + k) = \<bar>x\<bar> / pow2 e"
    using pow2_pos [of k] pow2_pos [of e] by (simp add: abs_scale pow2_add)
  have y0': "of_int m * pow2 (e + k) = pow2 k * y0"
    by (simp add: y0_def pow2_add)
  have rx: "round64 x =
      (if pow2 1024 \<le> y0 then signed_infinity (0 < x)
       else if m = 0 then signed_zero (x < 0)
       else Num (if x < 0 then - y0 else y0))"
    unfolding round64_nonzero [OF nz] e Let_def m_def y0_def ..
  have rkx: "round64 (pow2 k * x) =
      (if pow2 1024 \<le> pow2 k * y0 then signed_infinity (0 < pow2 k * x)
       else if m = 0 then signed_zero (pow2 k * x < 0)
       else Num (if pow2 k * x < 0 then - (pow2 k * y0) else pow2 k * y0))"
    unfolding round64_nonzero [OF knz] e' q' Let_def m_def [symmetric] y0' ..
  have sign: "pow2 k * x < 0 \<longleftrightarrow> x < 0"
    using pow2_pos [of k] by (simp add: mult_less_0_iff)
  from r rx have y: "y = (if x < 0 then - y0 else y0)" "m = 0 \<longrightarrow> \<not> x < 0"
    by (auto simp: signed_zero_def signed_infinity_def y0_def split: if_splits)
  then have "\<bar>y\<bar> = \<bar>y0\<bar>" by auto
  moreover have "0 \<le> y0 \<or> m < 0"
    using pow2_pos [of e] by (auto simp: y0_def zero_le_mult_iff not_less)
  moreover have "0 \<le> m"
  proof -
    have "0 \<le> \<bar>x\<bar> / pow2 e" using pow2_pos [of e] by simp
    then have "0 \<le> \<lfloor>\<bar>x\<bar> / pow2 e\<rfloor>" by simp
    then show ?thesis by (auto simp: m_def roundHalfEven_def Let_def)
  qed
  ultimately have "pow2 k * y0 < pow2 1024" using ky by auto
  with rkx y sign show ?thesis
    by (auto simp: signed_zero_def y0_def)
qed


lemma inRange_nonzero: "inRange x \<Longrightarrow> x \<noteq> 0"
  using pow2_pos [of "- 1022"] by (auto simp: inRange_def)

lemma inRange_scale_abs: "inRange (pow2 k * x) \<Longrightarrow> pow2 (- 1022) \<le> pow2 k * \<bar>x\<bar>"
  "inRange (pow2 k * x) \<Longrightarrow> pow2 k * \<bar>x\<bar> < pow2 1023"
  using pow2_pos [of k] by (simp_all add: inRange_def abs_mult)

text \<open>In the normal range below \<open>2\<^sup>1\<^sup>0\<^sup>2\<^sup>3\<close>, rounding gives a finite value close by.\<close>

lemma round64_inRange:
  assumes "inRange x"
  obtains y where "round64 x = Num y" and "\<bar>y\<bar> \<le> \<bar>x\<bar> + \<bar>x\<bar> / 2 ^ 53"
proof -
  have nz: "x \<noteq> 0" using assms by (rule inRange_nonzero)
  have x: "pow2 (- 1022) \<le> \<bar>x\<bar>" "\<bar>x\<bar> < pow2 1023"
    using assms by (simp_all add: inRange_def)
  define e where "e = floorlog2 \<bar>x\<bar> - 52"
  define m where "m = roundHalfEven (\<bar>x\<bar> / pow2 e)"
  define y0 where "y0 = of_int m * pow2 e"
  have e: "max (floorlog2 \<bar>x\<bar> - 52) (- 1074) = e"
    using floorlog2_normal [OF x(1)] by (simp add: e_def)
  have rx: "round64 x =
      (if pow2 1024 \<le> y0 then signed_infinity (0 < x)
       else if m = 0 then signed_zero (x < 0)
       else Num (if x < 0 then - y0 else y0))"
    unfolding round64_nonzero [OF nz] e Let_def m_def y0_def ..
  have "y0 - \<bar>x\<bar> = (of_int m - \<bar>x\<bar> / pow2 e) * pow2 e"
    using pow2_pos [of e] by (simp add: y0_def field_simps)
  then have "\<bar>y0 - \<bar>x\<bar>\<bar> = \<bar>of_int m - \<bar>x\<bar> / pow2 e\<bar> * pow2 e"
    using pow2_pos [of e] by (simp add: abs_mult)
  also have "\<dots> \<le> 1 / 2 * pow2 e"
    using roundHalfEven_error [of "\<bar>x\<bar> / pow2 e"] pow2_pos [of e]
    by (intro mult_right_mono) (simp_all add: m_def)
  also have "\<dots> \<le> \<bar>x\<bar> / 2 ^ 53"
  proof -
    have "e = floorlog2 \<bar>x\<bar> + (- 52)" by (simp add: e_def)
    then have "pow2 e = pow2 (floorlog2 \<bar>x\<bar>) * pow2 (- 52)"
      by (simp only: pow2_add)
    also have "\<dots> \<le> \<bar>x\<bar> * pow2 (- 52)"
      using floorlog2_bounds(1) [of "\<bar>x\<bar>"] nz pow2_pos [of "- 52"]
      by (intro mult_right_mono) simp_all
    finally show ?thesis by (simp add: pow2_def)
  qed
  finally have close: "\<bar>y0 - \<bar>x\<bar>\<bar> \<le> \<bar>x\<bar> / 2 ^ 53" .
  have "\<bar>x\<bar> / 2 ^ 53 < \<bar>x\<bar>" using nz by simp
  with close have pos: "0 < y0" by linarith
  then have m: "m \<noteq> 0" by (auto simp: y0_def)
  have up: "y0 \<le> \<bar>x\<bar> + \<bar>x\<bar> / 2 ^ 53" using close by linarith
  also have "\<dots> \<le> \<bar>x\<bar> + \<bar>x\<bar>" using nz by simp
  also have "\<dots> < pow2 1023 + pow2 1023" using x(2) by simp
  also have "\<dots> = pow2 1024" by (simp add: pow2_def)
  finally have "\<not> pow2 1024 \<le> y0" by simp
  with rx m have "round64 x = Num (if x < 0 then - y0 else y0)" by simp
  moreover have "\<bar>if x < 0 then - y0 else y0\<bar> \<le> \<bar>x\<bar> + \<bar>x\<bar> / 2 ^ 53"
  proof -
    have "\<bar>if x < 0 then - y0 else y0\<bar> = y0" using pos by simp
    with up show ?thesis by (simp only:)
  qed
  ultimately show thesis by (rule that)
qed

lemma num_mul_pow2:
  assumes "round64 x = Num x" and "inRange x" and "inRange (pow2 k * x)"
  shows "num_mul (Num (pow2 k)) (Num x) = Num (pow2 k * x)"
proof -
  have nz: "pow2 k * x \<noteq> 0" using assms(3) by (rule inRange_nonzero)
  have "pow2 k * \<bar>x\<bar> < pow2 1024"
    using inRange_scale_abs(2) [OF assms(3)] pow2_strict_mono [of 1023 1024] by simp
  with assms have "round64 (pow2 k * x) = Num (pow2 k * x)"
    by (intro round64_scale) (simp_all add: inRange_def inRange_scale_abs)
  with nz show ?thesis by (simp add: num_mul_def)
qed

lemma num_sub_pow2:
  assumes "inRange p" and "inRange a"
    and "p = a \<or> inRange (p - a) \<and> inRange (pow2 k * (p - a))"
  obtains g where "num_sub (Num p) (Num a) = Num g"
    and "num_sub (Num (pow2 k * p)) (Num (pow2 k * a)) = Num (pow2 k * g)"
proof (cases "p = a")
  case True
  have "a \<noteq> 0" using assms(2) by (rule inRange_nonzero)
  then have "pow2 k * a \<noteq> 0" using pow2_pos [of k] by simp
  have "num_sub (Num p) (Num a) = Num 0"
    using True \<open>a \<noteq> 0\<close> by (simp add: num_sub_def num_add_def signed_zero_def)
  moreover have "num_sub (Num (pow2 k * p)) (Num (pow2 k * a)) = Num (pow2 k * 0)"
    using True \<open>a \<noteq> 0\<close> pow2_pos [of k]
    by (simp add: num_sub_def num_add_def signed_zero_def mult_less_0_iff zero_less_mult_iff)
  ultimately show thesis by (rule that)
next
  case False
  with assms(3) have d: "inRange (p - a)" "inRange (pow2 k * (p - a))" by simp_all
  have a: "a \<noteq> 0" using assms(2) by (rule inRange_nonzero)
  have ka: "pow2 k * a \<noteq> 0" using a pow2_pos [of k] by simp
  from d(1) obtain g where g: "round64 (p - a) = Num g"
    and bound: "\<bar>g\<bar> \<le> \<bar>p - a\<bar> + \<bar>p - a\<bar> / 2 ^ 53"
    by (rule round64_inRange)
  have sub: "num_sub (Num p) (Num a) = Num g"
    using False a g by (simp add: num_sub_def num_add_def)
  have "pow2 k * \<bar>g\<bar> \<le> pow2 k * (\<bar>p - a\<bar> + \<bar>p - a\<bar> / 2 ^ 53)"
    using bound pow2_pos [of k] by simp
  also have "\<dots> \<le> pow2 k * \<bar>p - a\<bar> + pow2 k * \<bar>p - a\<bar>"
    using pow2_pos [of k] by (simp add: algebra_simps)
  also have "\<dots> < pow2 1023 + pow2 1023"
    using inRange_scale_abs(2) [OF d(2)] by simp
  also have "\<dots> = pow2 1024" by (simp add: pow2_def)
  finally have "pow2 k * \<bar>g\<bar> < pow2 1024" .
  with g d have "round64 (pow2 k * (p - a)) = Num (pow2 k * g)"
    by (intro round64_scale) (simp_all add: inRange_def inRange_scale_abs)
  moreover have "pow2 k * p - pow2 k * a \<noteq> 0"
    using False pow2_pos [of k] by (simp add: right_diff_distrib [symmetric])
  ultimately have "num_sub (Num (pow2 k * p)) (Num (pow2 k * a)) = Num (pow2 k * g)"
    using ka by (simp add: num_sub_def num_add_def right_diff_distrib)
  with sub show thesis by (rule that)
qed

lemma num_div_pow2:
  assumes "a \<noteq> 0"
  shows "num_div (Num (pow2 k * g)) (Num (pow2 k * a)) = num_div (Num g) (Num a)"
  using assms pow2_pos [of k]
  by (simp add: num_div_def mult_less_0_iff zero_less_mult_iff not_less)

subsection \<open>Special operands\<close>

lemma num_mul_one: "isNumber x \<Longrightarrow> num_mul (Num 1) x = x"
  by (cases x) (simp_all add: num_mul_def signed_zero_def signed_infinity_def)

text \<open>Division by a zero, and the product of its result with 100.\<close>

lemma num_div_zero:
  assumes "isZero z"
  shows "num_div g z =
    (if g = NaN \<or> isZero g then NaN else signed_infinity (isNegative g = isNegative z))"
  using assms by (cases z; cases g) (simp_all add: num_div_def)

lemma num_mul_100:
  "num_mul NaN (Num 100) = NaN" "num_mul (signed_infinity s) (Num 100) = signed_infinity s"
  by (simp_all add: num_mul_def signed_infinity_def)

lemma percent_of_zero_base:
  assumes "isZero z"
  shows "num_mul (num_div g z) (Num 100) =
    (if g = NaN \<or> isZero g then NaN else signed_infinity (isNegative g = isNegative z))"
  by (simp add: num_div_zero [OF assms] num_mul_100)

lemma num_div_finite:
  "g \<noteq> 0 \<Longrightarrow> d \<noteq> 0 \<Longrightarrow> num_div (Num g) (Num d) = round64 (g / d)"
  by (simp add: num_div_def)

section \<open>Valuation of a holding and of the portfolio\<close>

lemma gainLoss_costBasis: "gainLoss h = num_sub (currentValue h) (costBasis h)"
  by (simp add: gainLoss_def costBasis_def)

lemma valuation_error:
  "quantity h = Num q \<Longrightarrow> currentPrice h = Num p \<Longrightarrow> currentValue h = Num v \<Longrightarrow>
     \<bar>v - q * p\<bar> \<le> max (\<bar>q * p\<bar> / 2 ^ 53) (1 / 2 ^ 1075)"
  "quantity h = Num q \<Longrightarrow> averageCost h = Num a \<Longrightarrow> costBasis h = Num c \<Longrightarrow>
     \<bar>c - q * a\<bar> \<le> max (\<bar>q * a\<bar> / 2 ^ 53) (1 / 2 ^ 1075)"
  "currentValue h = Num v \<Longrightarrow> costBasis h = Num c \<Longrightarrow> gainLoss h = Num g \<Longrightarrow>
     \<bar>g - (v - c)\<bar> \<le> max (\<bar>v - c\<bar> / 2 ^ 53) (1 / 2 ^ 1075)"
proof -
  show "\<bar>v - q * p\<bar> \<le> max (\<bar>q * p\<bar> / 2 ^ 53) (1 / 2 ^ 1075)"
    if "quantity h = Num q" "currentPrice h = Num p" "currentValue h = Num v"
    using that by (intro num_mul_error) (simp add: currentValue_def)
  show "\<bar>c - q * a\<bar> \<le> max (\<bar>q * a\<bar> / 2 ^ 53) (1 / 2 ^ 1075)"
    if "quantity h = Num q" "averageCost h = Num a" "costBasis h = Num c"
    using that by (intro num_mul_error) (simp add: costBasis_def)
  show "\<bar>g - (v - c)\<bar> \<le> max (\<bar>v - c\<bar> / 2 ^ 53) (1 / 2 ^ 1075)"
    if "currentValue h = Num v" "costBasis h = Num c" "gainLoss h = Num g"
    using that by (intro num_sub_error) (simp add: gainLoss_costBasis)
qed

lemma totalGainLoss_foldl:
  "totalGainLoss hs = foldl (\<lambda>sum holding. num_add sum (gainLoss holding)) (Num 0) hs"
  by (simp add: totalGainLoss_def gainLoss_costBasis)

text \<open>Scaling the quantity by a power of two, in the normal range.\<close>

lemma gainLossPercent_pow2:
  assumes "quantity h = Num (pow2 k)" and "currentPrice h = Num p" and "averageCost h = Num a"
    and "round64 p = Num p" and "round64 a = Num a"
    and "inRange p" and "inRange a" and "inRange (pow2 k * p)" and "inRange (pow2 k * a)"
    and "p = a \<or> inRange (p - a) \<and> inRange (pow2 k * (p - a))"
  shows "gainLossPercent h =
    num_mul (num_div (num_sub (Num p) (Num a)) (Num a)) (Num 100)"
proof -
  have cv: "num_mul (Num (pow2 k)) (Num p) = Num (pow2 k * p)"
    using assms by (intro num_mul_pow2)
  have cb: "num_mul (Num (pow2 k)) (Num a) = Num (pow2 k * a)"
    using assms by (intro num_mul_pow2)
  from assms(6,7,10) obtain g where g: "num_sub (Num p) (Num a) = Num g"
    and kg: "num_sub (Num (pow2 k * p)) (Num (pow2 k * a)) = Num (pow2 k * g)"
    by (rule num_sub_pow2)
  have a: "a \<noteq> 0" using assms(7) by (rule inRange_nonzero)
  show ?thesis
    by (simp add: gainLossPercent_def gainLoss_def currentValue_def assms(1-3) cv cb g kg
        num_div_pow2 [OF a])
qed

text \<open>The values of the initial state.\<close>

lemma aapl_fields:
  "quantity aapl = Num 50" "currentPrice aapl = Num 175.25" "averageCost aapl = Num 165.50"
  by (simp_all add: aapl_def literal_def round64_eval)

lemma initial_fields:
  "map (\<lambda>h. (quantity h, currentPrice h, averageCost h)) initialHoldings =
    [ (Num 50, Num 175.25, Num 165.50),
      (Num 0.5, Num 62500.75, Num 58000),
      (Num (3602879701896397 / 2 ^ 50), Num 3250.50, Num 3100),
      (Num 25, Num 185.75, Num 180.25),
      (Num 15, Num 950.25, Num 850.50) ]"
  by (simp add: initialHoldings_def aapl_def literal_def round64_eval)

lemma aapl_valuation:
  "currentValue aapl = Num 8762.50" "costBasis aapl = Num 8275"
  "gainLoss aapl = Num 487.50"
  "gainLossPercent aapl = Num (1658236267630753 / 2 ^ 48)"
  by (simp_all add: currentValue_def costBasis_def gainLoss_def gainLossPercent_def
      aapl_fields num_eval)

lemma initial_gains:
  "map gainLoss initialHoldings =
    [ Num 487.5, Num 2250.375, Num (264762399968461 / 2 ^ 39), Num 137.5, Num 1496.25 ]"
  by (simp add: initialHoldings_def aapl_def literal_def gainLoss_def currentValue_def num_eval)

lemma initial_totalGainLoss:
  "totalGainLoss initialHoldings = Num (2668088659856589 / 2 ^ 39)"
proof -
  have "totalGainLoss initialHoldings
      = foldl num_add (Num 0) (map gainLoss initialHoldings)"
    by (simp add: totalGainLoss_foldl foldl_map)
  also have "\<dots> = Num (2668088659856589 / 2 ^ 39)"
    unfolding initial_gains by (simp add: num_eval)
  finally show ?thesis .
qed

lemma initial_currentValues:
  "foldl (\<lambda>sum holding. num_add sum (currentValue holding)) (Num 0) initialHoldings
   = Num (2381541326769357 / 2 ^ 35)"
proof -
  have cv: "map currentValue initialHoldings =
      [ Num 8762.5, Num 31250.375, Num (5718340073737421 / 2 ^ 39), Num 4643.75,
        Num 14253.75 ]"
    by (simp add: initialHoldings_def aapl_def literal_def currentValue_def num_eval)
  have "foldl (\<lambda>sum holding. num_add sum (currentValue holding)) (Num 0) initialHoldings
      = foldl num_add (Num 0) (map currentValue initialHoldings)"
    by (simp add: foldl_map)
  also have "\<dots> = Num (2381541326769357 / 2 ^ 35)"
    unfolding cv by (simp add: num_eval)
  finally show ?thesis .
qed

lemma eth_fields:
  "quantity (initialHoldings ! 2) = Num (3602879701896397 / 2 ^ 50)"
  "currentPrice (initialHoldings ! 2) = Num 3250.5"
  "averageCost (initialHoldings ! 2) = Num 3100"
  by (simp_all add: initialHoldings_def literal_def round64_eval)

lemma eth_percent:
  "gainLossPercent (initialHoldings ! 2) = Num (341628903185111 / 2 ^ 46)"
  by (simp add: gainLossPercent_def gainLoss_def currentValue_def eth_fields num_eval)

lemma eth_percent_unit:
  "num_mul (num_div (num_sub (Num 3250.5) (Num 3100)) (Num 3100)) (Num 100)
   = Num (5466062450961771 / 2 ^ 50)"
  by (simp add: num_eval)

lemma eth_isNumber: "isNumber (Num 3250.5)" "isNumber (Num 3100)"
  by (simp_all add: round64_eval)

lemma eth_valuation:
  "currentValue (initialHoldings ! 2) = Num (5718340073737421 / 2 ^ 39)"
  "costBasis (initialHoldings ! 2) = Num 9920"
  "gainLoss (initialHoldings ! 2) = Num (264762399968461 / 2 ^ 39)"
  by (simp_all add: currentValue_def costBasis_def gainLoss_def eth_fields num_eval)

text \<open>
  Claim C4. For every holding the displayed current value is quantity times current
  price, the cost basis is quantity times average cost and the gain or loss is the
  current value minus the cost basis, each a single binary64 operation: where the
  operands and the result are finite, the result differs from the exact product or
  difference \<open>x\<close> by at most \<open>\<bar>x\<bar> / 2\<^sup>5\<^sup>3\<close>, or by at most \<open>2\<^sup>-\<^sup>1\<^sup>0\<^sup>7\<^sup>5\<close> where that is
  larger. For the AAPL holding (50 units, price
  175.25, average cost 165.50) the values are exactly 8762.50, 8275.00 and 487.50,
  and the percentage, 5.8912386706948645, rounds to 5.89.
\<close>

theorem holding_valuation:
  "currentValue h = num_mul (quantity h) (currentPrice h)
   \<and> costBasis h = num_mul (quantity h) (averageCost h)
   \<and> gainLoss h = num_sub (currentValue h) (costBasis h)
   \<and> (quantity h = Num q \<and> currentPrice h = Num p \<and> currentValue h = Num v \<longrightarrow>
        \<bar>v - q * p\<bar> \<le> max (\<bar>q * p\<bar> / 2 ^ 53) (1 / 2 ^ 1075))
   \<and> (quantity h = Num q \<and> averageCost h = Num a \<and> costBasis h = Num c \<longrightarrow>
        \<bar>c - q * a\<bar> \<le> max (\<bar>q * a\<bar> / 2 ^ 53) (1 / 2 ^ 1075))
   \<and> (currentValue h = Num v \<and> costBasis h = Num c \<and> gainLoss h = Num g \<longrightarrow>
        \<bar>g - (v - c)\<bar> \<le> max (\<bar>v - c\<bar> / 2 ^ 53) (1 / 2 ^ 1075))
   \<and> currentValue aapl = Num 8762.50 \<and> costBasis aapl = Num 8275.00
   \<and> gainLoss aapl = Num 487.50
   \<and> gainLossPercent aapl = Num (1658236267630753 / 2 ^ 48)
   \<and> \<bar>1658236267630753 / 2 ^ 48 - 5.89\<bar> < (0.005 :: real)"
proof -
  have general: "currentValue h = num_mul (quantity h) (currentPrice h)
      \<and> costBasis h = num_mul (quantity h) (averageCost h)
      \<and> gainLoss h = num_sub (currentValue h) (costBasis h)"
    by (simp add: currentValue_def costBasis_def gainLoss_costBasis)
  have close: "(quantity h = Num q \<and> currentPrice h = Num p \<and> currentValue h = Num v \<longrightarrow>
        \<bar>v - q * p\<bar> \<le> max (\<bar>q * p\<bar> / 2 ^ 53) (1 / 2 ^ 1075))
      \<and> (quantity h = Num q \<and> averageCost h = Num a \<and> costBasis h = Num c \<longrightarrow>
        \<bar>c - q * a\<bar> \<le> max (\<bar>q * a\<bar> / 2 ^ 53) (1 / 2 ^ 1075))
      \<and> (currentValue h = Num v \<and> costBasis h = Num c \<and> gainLoss h = Num g \<longrightarrow>
        \<bar>g - (v - c)\<bar> \<le> max (\<bar>v - c\<bar> / 2 ^ 53) (1 / 2 ^ 1075))"
    using valuation_error [of h] by blast
  have example: "currentValue aapl = Num 8762.50 \<and> costBasis aapl = Num 8275.00
      \<and> gainLoss aapl = Num 487.50
      \<and> gainLossPercent aapl = Num (1658236267630753 / 2 ^ 48)"
    using aapl_valuation by simp
  have rounded: "\<bar>1658236267630753 / 2 ^ 48 - 5.89\<bar> < (0.005 :: real)"
    by simp
  from general close example rounded show ?thesis by blast
qed

theorem holding_valuation_witness:
  "currentValue (initialHoldings ! 2) = Num (5718340073737421 / 2 ^ 39)
   \<and> costBasis (initialHoldings ! 2) = Num 9920
   \<and> gainLoss (initialHoldings ! 2) = Num (264762399968461 / 2 ^ 39)
   \<and> \<bar>5718340073737421 / 2 ^ 39 - 3602879701896397 / 2 ^ 50 * 3250.5\<bar>
       \<le> max (\<bar>3602879701896397 / 2 ^ 50 * 3250.5\<bar> / 2 ^ 53) (1 / 2 ^ 1075 :: real)
   \<and> \<bar>264762399968461 / 2 ^ 39 - (5718340073737421 / 2 ^ 39 - 9920)\<bar>
       \<le> max (\<bar>5718340073737421 / 2 ^ 39 - 9920\<bar> / 2 ^ 53) (1 / 2 ^ 1075 :: real)"
  using holding_valuation [of "initialHoldings ! 2" "3602879701896397 / 2 ^ 50" "3250.5"
      "5718340073737421 / 2 ^ 39" 3100 9920 "264762399968461 / 2 ^ 39"]
    eth_fields eth_valuation
  by blast

text \<open>
  Claim C10 has the percentage equal to (currentPrice - averageCost) / averageCost
  * 100 whatever the positive quantity is. The two products with the quantity are
  rounded before they are subtracted and divided, so the quantity does matter: the
  ETH holding of the initial state (quantity 3.2, price 3250.50, average cost 3100)
  shows 4.8548387096774235, and the same holding with quantity 1 shows
  4.854838709677419.
\<close>

theorem gainLossPercent_quantity_counterexample:
  "quantity (initialHoldings ! 2) = Num (3602879701896397 / 2 ^ 50)
   \<and> currentPrice (initialHoldings ! 2) = Num 3250.5
   \<and> averageCost (initialHoldings ! 2) = Num 3100
   \<and> (0 :: real) < 3602879701896397 / 2 ^ 50
   \<and> gainLossPercent (initialHoldings ! 2) = Num (341628903185111 / 2 ^ 46)
   \<and> gainLossPercent ((initialHoldings ! 2)\<lparr> quantity := Num 1 \<rparr>)
       = Num (5466062450961771 / 2 ^ 50)
   \<and> (341628903185111 / 2 ^ 46 :: real) \<noteq> 5466062450961771 / 2 ^ 50
   \<and> (341628903185111 / 2 ^ 46 :: real) \<noteq> (3250.5 - 3100) / 3100 * 100"
proof -
  have unit: "gainLossPercent ((initialHoldings ! 2)\<lparr> quantity := Num 1 \<rparr>)
      = Num (5466062450961771 / 2 ^ 50)"
    by (simp add: gainLossPercent_def gainLoss_def currentValue_def eth_fields num_eval)
  have differ: "(341628903185111 / 2 ^ 46 :: real) \<noteq> 5466062450961771 / 2 ^ 50
      \<and> (341628903185111 / 2 ^ 46 :: real) \<noteq> (3250.5 - 3100) / 3100 * 100"
    by simp
  have positive: "(0 :: real) < 3602879701896397 / 2 ^ 50"
    by simp
  from eth_fields eth_percent unit differ positive show ?thesis by blast
qed

text \<open>
  Claim C10, amended. The percentage of a holding is the binary64 value of
  ((q * p - q * a) / (q * a)) * 100, every operation rounded. It is the binary64
  value of ((p - a) / a) * 100, free of the quantity, when the quantity is 1, and
  when the quantity is a power of two and price, cost, their products with the
  quantity and, unless price and cost are equal, their difference and its product
  with the quantity are in the normal range.
\<close>

theorem gainLossPercent_formula:
  "gainLossPercent h =
     num_mul
       (num_div
         (num_sub (num_mul (quantity h) (currentPrice h))
           (num_mul (quantity h) (averageCost h)))
         (num_mul (quantity h) (averageCost h)))
       (Num 100)
   \<and> (quantity h = Num 1 \<and> isNumber (currentPrice h) \<and> isNumber (averageCost h) \<longrightarrow>
        gainLossPercent h =
          num_mul
            (num_div (num_sub (currentPrice h) (averageCost h)) (averageCost h))
            (Num 100))
   \<and> (quantity h = Num (pow2 k) \<and> currentPrice h = Num p \<and> averageCost h = Num a
        \<and> isNumber (Num p) \<and> isNumber (Num a)
        \<and> inRange p \<and> inRange a \<and> inRange (pow2 k * p) \<and> inRange (pow2 k * a)
        \<and> (p = a \<or> inRange (p - a) \<and> inRange (pow2 k * (p - a))) \<longrightarrow>
        gainLossPercent h =
          num_mul (num_div (num_sub (Num p) (Num a)) (Num a)) (Num 100))"
proof -
  have general: "gainLossPercent h =
      num_mul
        (num_div
          (num_sub (num_mul (quantity h) (currentPrice h))
            (num_mul (quantity h) (averageCost h)))
          (num_mul (quantity h) (averageCost h)))
        (Num 100)"
    by (simp add: gainLossPercent_def gainLoss_def currentValue_def)
  have unit: "quantity h = Num 1 \<and> isNumber (currentPrice h) \<and> isNumber (averageCost h) \<longrightarrow>
      gainLossPercent h =
        num_mul
          (num_div (num_sub (currentPrice h) (averageCost h)) (averageCost h))
          (Num 100)"
    by (simp add: gainLossPercent_def gainLoss_def currentValue_def num_mul_one)
  have power: "quantity h = Num (pow2 k) \<and> currentPrice h = Num p \<and> averageCost h = Num a
        \<and> isNumber (Num p) \<and> isNumber (Num a)
        \<and> inRange p \<and> inRange a \<and> inRange (pow2 k * p) \<and> inRange (pow2 k * a)
        \<and> (p = a \<or> inRange (p - a) \<and> inRange (pow2 k * (p - a))) \<longrightarrow>
      gainLossPercent h =
        num_mul (num_div (num_sub (Num p) (Num a)) (Num a)) (Num 100)"
    using gainLossPercent_pow2 [of h k p a] by simp
  from general unit power show ?thesis by blast
qed

lemma eth_inRange:
  "inRange 3250.5" "inRange 3100" "inRange (pow2 2 * 3250.5)" "inRange (pow2 2 * 3100)"
  "inRange (3250.5 - 3100)" "inRange (pow2 2 * (3250.5 - 3100))"
  by (simp_all add: inRange_def pow2_def)

theorem gainLossPercent_formula_witness:
  "gainLossPercent ((initialHoldings ! 2)\<lparr> quantity := Num 1 \<rparr>)
     = Num (5466062450961771 / 2 ^ 50)
   \<and> gainLossPercent ((initialHoldings ! 2)\<lparr> quantity := Num (pow2 2) \<rparr>)
     = Num (5466062450961771 / 2 ^ 50)"
proof -
  let ?h = "(initialHoldings ! 2)\<lparr> quantity := Num 1 \<rparr>"
  let ?k = "(initialHoldings ! 2)\<lparr> quantity := Num (pow2 2) \<rparr>"
  have fields: "quantity ?h = Num 1 \<and> isNumber (currentPrice ?h) \<and> isNumber (averageCost ?h)"
    using eth_isNumber by (simp add: eth_fields)
  with gainLossPercent_formula [of ?h]
  have "gainLossPercent ?h =
      num_mul (num_div (num_sub (currentPrice ?h) (averageCost ?h)) (averageCost ?h))
        (Num 100)"
    by blast
  also have "\<dots> = Num (5466062450961771 / 2 ^ 50)"
    using eth_percent_unit by (simp add: eth_fields)
  finally have one: "gainLossPercent ?h = Num (5466062450961771 / 2 ^ 50)" .
  have "quantity ?k = Num (pow2 2) \<and> currentPrice ?k = Num 3250.5
      \<and> averageCost ?k = Num 3100"
    by (simp add: eth_fields)
  with gainLossPercent_formula [of ?k 2 "3250.5" 3100] eth_isNumber eth_inRange
  have "gainLossPercent ?k =
      num_mul (num_div (num_sub (Num 3250.5) (Num 3100)) (Num 3100)) (Num 100)"
    by blast
  then have four: "gainLossPercent ?k = Num (5466062450961771 / 2 ^ 50)"
    using eth_percent_unit by (rule trans)
  from one four show ?thesis by blast
qed

text \<open>
  Claim C5. For every list of holdings the total gain or loss is the sum of the
  holdings' gains or losses, added one after the other from 0 in the order of the
  list: 0 for no holding, and for one holding more the total so far plus its gain
  or loss. The total percentage is the total divided by the portfolio value minus the
  total, times 100, in binary64; where the total and that difference are finite
  and not 0, the quotient is the exact quotient rounded. The portfolio value is an
  argument of its own, the component's state \<open>portfolioValue\<close>, and is not computed
  from the holdings: in the initial state it is 125430.75, while the current values
  add up to 69311.975.
\<close>

theorem portfolio_summary:
  "totalGainLoss hs = foldl (\<lambda>sum holding. num_add sum (gainLoss holding)) (Num 0) hs
   \<and> totalGainLoss [] = Num 0
   \<and> totalGainLoss (hs @ [h]) = num_add (totalGainLoss hs) (gainLoss h)
   \<and> totalGainLossPercent portfolioValue hs =
       num_mul
         (num_div (totalGainLoss hs) (num_sub portfolioValue (totalGainLoss hs)))
         (Num 100)
   \<and> (totalGainLoss hs = Num g \<and> num_sub portfolioValue (totalGainLoss hs) = Num d
        \<and> g \<noteq> 0 \<and> d \<noteq> 0 \<longrightarrow>
        totalGainLossPercent portfolioValue hs = num_mul (round64 (g / d)) (Num 100))"
proof -
  have percent: "totalGainLoss hs = Num g \<and> num_sub portfolioValue (totalGainLoss hs) = Num d
        \<and> g \<noteq> 0 \<and> d \<noteq> 0 \<longrightarrow>
      totalGainLossPercent portfolioValue hs = num_mul (round64 (g / d)) (Num 100)"
    by (auto simp: totalGainLossPercent_def num_div_finite)
  have step: "totalGainLoss [] = Num 0
      \<and> totalGainLoss (hs @ [h]) = num_add (totalGainLoss hs) (gainLoss h)"
    by (simp add: totalGainLoss_foldl)
  have formula: "totalGainLossPercent portfolioValue hs =
      num_mul
        (num_div (totalGainLoss hs) (num_sub portfolioValue (totalGainLoss hs)))
        (Num 100)"
    by (simp add: totalGainLossPercent_def)
  from totalGainLoss_foldl [of hs] step formula percent show ?thesis by blast
qed

theorem portfolio_summary_witness:
  "totalGainLoss initialHoldings = Num (2668088659856589 / 2 ^ 39)
   \<and> totalGainLossPercent initialPortfolioValue initialHoldings
       = Num (2265864046963269 / 2 ^ 49)
   \<and> foldl (\<lambda>sum holding. num_add sum (currentValue holding)) (Num 0) initialHoldings
       = Num (2381541326769357 / 2 ^ 35)
   \<and> initialPortfolioValue = Num 125430.75"
proof -
  have pv: "initialPortfolioValue = Num 125430.75"
    by (simp add: initialPortfolioValue_def literal_def round64_eval)
  have d: "num_sub initialPortfolioValue (totalGainLoss initialHoldings)
      = Num (4143012212060979 / 2 ^ 35)"
    by (simp add: pv initial_totalGainLoss num_eval)
  have q: "num_mul (round64 ((2668088659856589 / 2 ^ 39) / (4143012212060979 / 2 ^ 35)))
      (Num 100) = Num (2265864046963269 / 2 ^ 49)"
    by (simp add: num_eval)
  have nonzero: "(2668088659856589 / 2 ^ 39 :: real) \<noteq> 0
      \<and> (4143012212060979 / 2 ^ 35 :: real) \<noteq> 0"
    by simp
  from portfolio_summary [of initialHoldings _ initialPortfolioValue
      "2668088659856589 / 2 ^ 39" "4143012212060979 / 2 ^ 35"]
    initial_totalGainLoss d nonzero
  have "totalGainLossPercent initialPortfolioValue initialHoldings
      = num_mul (round64 ((2668088659856589 / 2 ^ 39) / (4143012212060979 / 2 ^ 35)))
          (Num 100)"
    by blast
  then have "totalGainLossPercent initialPortfolioValue initialHoldings
      = Num (2265864046963269 / 2 ^ 49)"
    using q by (rule trans)
  with initial_totalGainLoss initial_currentValues pv show ?thesis by blast
qed

lemma zero_cost_examples:
  "costBasis (aapl\<lparr> averageCost := Num 0 \<rparr>) = Num 0"
  "gainLoss (aapl\<lparr> averageCost := Num 0 \<rparr>) = Num 8762.5"
  "costBasis (aapl\<lparr> averageCost := NegZero \<rparr>) = NegZero"
  "gainLoss (aapl\<lparr> averageCost := NegZero \<rparr>) = Num 8762.5"
  "costBasis (aapl\<lparr> quantity := Num 0 \<rparr>) = Num 0"
  "gainLoss (aapl\<lparr> quantity := Num 0 \<rparr>) = Num 0"
  by (simp_all add: costBasis_def gainLoss_def currentValue_def aapl_fields num_eval)

text \<open>
  Claim C2 says that a zero cost basis, and a zero \<open>portfolioValue - totalGainLoss\<close>,
  give a labelled sentinel instead of the result of the division. The code divides
  without a guard: a holding of 50 units at price 175.25 acquired at average cost 0
  has percentage \<^verbatim>\<open>Infinity\<close>, one of 0 units has \<^verbatim>\<open>NaN\<close>, and a portfolio value
  equal to the total gain has total percentage \<^verbatim>\<open>Infinity\<close>.
\<close>

theorem zero_cost_basis_counterexample:
  "costBasis (aapl\<lparr> averageCost := Num 0 \<rparr>) = Num 0
   \<and> gainLossPercent (aapl\<lparr> averageCost := Num 0 \<rparr>) = Infinity
   \<and> costBasis (aapl\<lparr> quantity := Num 0 \<rparr>) = Num 0
   \<and> gainLossPercent (aapl\<lparr> quantity := Num 0 \<rparr>) = NaN
   \<and> num_sub (Num 487.5) (totalGainLoss [aapl]) = Num 0
   \<and> totalGainLossPercent (Num 487.5) [aapl] = Infinity"
  by (simp add: costBasis_def gainLossPercent_def gainLoss_def currentValue_def
      totalGainLossPercent_def totalGainLoss_def aapl_fields num_eval)

text \<open>
  Claim C2, amended. When the cost basis of a holding is a zero, the percentage is
  the plain result of the division by that zero: \<^verbatim>\<open>NaN\<close> when the gain or loss is a
  zero or \<^verbatim>\<open>NaN\<close>, and otherwise an infinity, \<^verbatim>\<open>Infinity\<close> when the gain or loss
  and the zero have the same sign and \<^verbatim>\<open>-Infinity\<close> when they differ (so an average
  cost of -0 turns the sign). Likewise, when \<open>portfolioValue - totalGainLoss\<close> is a
  zero, the total percentage is \<^verbatim>\<open>NaN\<close> for a total of zero and an infinity
  otherwise. Neither computation has an error result.
\<close>

theorem zero_cost_basis_percent:
  "(isZero (costBasis h) \<longrightarrow>
      gainLossPercent h =
        (if gainLoss h = NaN \<or> isZero (gainLoss h) then NaN
         else signed_infinity (isNegative (gainLoss h) = isNegative (costBasis h))))
   \<and> (isZero (num_sub portfolioValue (totalGainLoss hs)) \<longrightarrow>
      totalGainLossPercent portfolioValue hs =
        (if totalGainLoss hs = NaN \<or> isZero (totalGainLoss hs) then NaN
         else signed_infinity
           (isNegative (totalGainLoss hs)
            = isNegative (num_sub portfolioValue (totalGainLoss hs)))))"
proof -
  have holding: "isZero (costBasis h) \<longrightarrow>
      gainLossPercent h =
        (if gainLoss h = NaN \<or> isZero (gainLoss h) then NaN
         else signed_infinity (isNegative (gainLoss h) = isNegative (costBasis h)))"
    unfolding gainLossPercent_def costBasis_def [symmetric]
    using percent_of_zero_base [of "costBasis h" "gainLoss h"] by blast
  have total: "isZero (num_sub portfolioValue (totalGainLoss hs)) \<longrightarrow>
      totalGainLossPercent portfolioValue hs =
        (if totalGainLoss hs = NaN \<or> isZero (totalGainLoss hs) then NaN
         else signed_infinity
           (isNegative (totalGainLoss hs)
            = isNegative (num_sub portfolioValue (totalGainLoss hs))))"
    unfolding totalGainLossPercent_def
    using percent_of_zero_base
      [of "num_sub portfolioValue (totalGainLoss hs)" "totalGainLoss hs"]
    by blast
  from holding total show ?thesis by blast
qed

theorem zero_cost_basis_percent_witness:
  "gainLossPercent (aapl\<lparr> averageCost := Num 0 \<rparr>) = Infinity
   \<and> gainLossPercent (aapl\<lparr> averageCost := NegZero \<rparr>) = NegInfinity
   \<and> gainLossPercent (aapl\<lparr> quantity := Num 0 \<rparr>) = NaN
   \<and> totalGainLossPercent (Num (2668088659856589 / 2 ^ 39)) initialHoldings = Infinity"
proof -
  have a: "gainLossPercent (aapl\<lparr> averageCost := Num 0 \<rparr>) = Infinity"
    using zero_cost_basis_percent [of "aapl\<lparr> averageCost := Num 0 \<rparr>"]
    by (simp add: zero_cost_examples signed_infinity_def)
  have b: "gainLossPercent (aapl\<lparr> averageCost := NegZero \<rparr>) = NegInfinity"
    using zero_cost_basis_percent [of "aapl\<lparr> averageCost := NegZero \<rparr>"]
    by (simp add: zero_cost_examples signed_infinity_def)
  have c: "gainLossPercent (aapl\<lparr> quantity := Num 0 \<rparr>) = NaN"
    using zero_cost_basis_percent [of "aapl\<lparr> quantity := Num 0 \<rparr>"]
    by (simp add: zero_cost_examples)
  have diff: "num_sub (Num (2668088659856589 / 2 ^ 39)) (totalGainLoss initialHoldings)
      = Num 0"
    by (simp add: initial_totalGainLoss num_sub_def num_add_def signed_zero_def)
  let ?T = "totalGainLoss initialHoldings"
  let ?D = "num_sub (Num (2668088659856589 / 2 ^ 39)) ?T"
  have "isZero ?D"
    using diff by simp
  with zero_cost_basis_percent [of _ "Num (2668088659856589 / 2 ^ 39)" initialHoldings]
  have "totalGainLossPercent (Num (2668088659856589 / 2 ^ 39)) initialHoldings
      = (if ?T = NaN \<or> isZero ?T then NaN
         else signed_infinity (isNegative ?T = isNegative ?D))"
    by blast
  also have "\<dots> = Infinity"
    unfolding diff by (simp add: initial_totalGainLoss signed_infinity_def)
  finally have d:
    "totalGainLossPercent (Num (2668088659856589 / 2 ^ 39)) initialHoldings = Infinity" .
  from a b c d show ?thesis by blast
qed

section \<open>The three impact groups and the importance badge\<close>

lemma groups_mset:
  "mset (highImpactEvents evs) + mset (mediumImpactEvents evs) + mset (lowImpactEvents evs)
   = mset evs"
  unfolding highImpactEvents_def mediumImpactEvents_def lowImpactEvents_def
  by (induction evs) auto

lemma groups_disjoint:
  "set (highImpactEvents evs) \<inter> set (mediumImpactEvents evs) = {}"
  "set (highImpactEvents evs) \<inter> set (lowImpactEvents evs) = {}"
  "set (mediumImpactEvents evs) \<inter> set (lowImpactEvents evs) = {}"
  unfolding highImpactEvents_def mediumImpactEvents_def lowImpactEvents_def
  by auto

lemma groups_cover:
  "e \<in> set evs \<Longrightarrow>
     e \<in> set (highImpactEvents evs) \<or> e \<in> set (mediumImpactEvents evs)
     \<or> e \<in> set (lowImpactEvents evs)"
  unfolding highImpactEvents_def mediumImpactEvents_def lowImpactEvents_def
  by auto

lemma groups_subseq:
  "subseq (highImpactEvents evs) evs"
  "subseq (mediumImpactEvents evs) evs"
  "subseq (lowImpactEvents evs) evs"
  unfolding highImpactEvents_def mediumImpactEvents_def lowImpactEvents_def
  by simp_all

lemma groups_in_range:
  assumes "\<forall>e \<in> set evs. 1 \<le> importance e \<and> importance e \<le> 5"
  shows "highImpactEvents evs = filter (\<lambda>e. importance e = 4 \<or> importance e = 5) evs"
    and "lowImpactEvents evs = filter (\<lambda>e. importance e = 1 \<or> importance e = 2) evs"
  unfolding highImpactEvents_def lowImpactEvents_def
  using assms by (auto intro!: filter_cong)

lemma initial_importance:
  "\<forall>e \<in> set initialEvents. 1 \<le> importance e \<and> importance e \<le> 5"
  by (simp add: initialEvents_def)

lemma initial_groups:
  "map EconomicEvent.id (highImpactEvents initialEvents) = [''1'', ''2'', ''7'']"
  "map EconomicEvent.id (mediumImpactEvents initialEvents) = [''4'', ''5'']"
  "map EconomicEvent.id (lowImpactEvents initialEvents) = [''3'', ''6'']"
  by (simp_all add: initialEvents_def highImpactEvents_def mediumImpactEvents_def
      lowImpactEvents_def)

text \<open>
  Claim C9. For a list of events whose importance values lie in 1..5, the three
  groups (importance at least 4, equal to 3, at most 2) partition the list: together
  they hold every event as often as the list does, no event is in two groups, every
  event of the list is in one, and each group is a subsequence of the list, so it
  keeps the relative order of its events.
\<close>

theorem impact_groups_partition:
  assumes "\<forall>e \<in> set evs. 1 \<le> importance e \<and> importance e \<le> 5"
  shows "mset (highImpactEvents evs) + mset (mediumImpactEvents evs)
           + mset (lowImpactEvents evs) = mset evs
    \<and> set (highImpactEvents evs) \<inter> set (mediumImpactEvents evs) = {}
    \<and> set (highImpactEvents evs) \<inter> set (lowImpactEvents evs) = {}
    \<and> set (mediumImpactEvents evs) \<inter> set (lowImpactEvents evs) = {}
    \<and> (\<forall>e \<in> set evs. e \<in> set (highImpactEvents evs) \<or> e \<in> set (mediumImpactEvents evs)
          \<or> e \<in> set (lowImpactEvents evs))
    \<and> subseq (highImpactEvents evs) evs
    \<and> subseq (mediumImpactEvents evs) evs
    \<and> subseq (lowImpactEvents evs) evs"
  using groups_mset [of evs] groups_disjoint [of evs] groups_subseq [of evs]
    groups_cover [of _ evs]
  by blast

theorem impact_groups_partition_witness:
  "mset (highImpactEvents initialEvents) + mset (mediumImpactEvents initialEvents)
     + mset (lowImpactEvents initialEvents) = mset initialEvents
   \<and> map EconomicEvent.id (highImpactEvents initialEvents) = [''1'', ''2'', ''7'']
   \<and> map EconomicEvent.id (mediumImpactEvents initialEvents) = [''4'', ''5'']
   \<and> map EconomicEvent.id (lowImpactEvents initialEvents) = [''3'', ''6'']
   \<and> subseq (highImpactEvents initialEvents) initialEvents
   \<and> subseq (mediumImpactEvents initialEvents) initialEvents
   \<and> subseq (lowImpactEvents initialEvents) initialEvents"
  using impact_groups_partition [OF initial_importance] initial_groups by blast

text \<open>
  Claim C6. On the importance scale 1..5 the high-impact group holds exactly the
  events of importance 4 or 5, the medium group those of importance 3 and the low
  group those of importance 1 or 2. The badge has a case of its own for 5, 4, 3 and
  2 (5 with the fire icon, 4 with the warning icon) and gives 1 and every other
  value the default style with no icon.
\<close>

theorem importance_tiers:
  "((\<forall>e \<in> set evs. 1 \<le> importance e \<and> importance e \<le> 5) \<longrightarrow>
      highImpactEvents evs = filter (\<lambda>e. importance e = 4 \<or> importance e = 5) evs
      \<and> mediumImpactEvents evs = filter (\<lambda>e. importance e = 3) evs
      \<and> lowImpactEvents evs = filter (\<lambda>e. importance e = 1 \<or> importance e = 2) evs)
   \<and> getImportanceColor 5 = ''bg-red-100 dark:bg-red-900 text-red-800 dark:text-red-200''
   \<and> getImportanceColor 4
       = ''bg-orange-100 dark:bg-orange-900 text-orange-800 dark:text-orange-200''
   \<and> getImportanceColor 3
       = ''bg-yellow-100 dark:bg-yellow-900 text-yellow-800 dark:text-yellow-200''
   \<and> getImportanceColor 2 = ''bg-blue-100 dark:bg-blue-900 text-blue-800 dark:text-blue-200''
   \<and> (imp \<noteq> 5 \<and> imp \<noteq> 4 \<and> imp \<noteq> 3 \<and> imp \<noteq> 2 \<longrightarrow>
        getImportanceColor imp
          = ''bg-gray-100 dark:bg-gray-900 text-gray-800 dark:text-gray-200'')
   \<and> importanceIcon 5 = Fire \<and> importanceIcon 4 = Warning
   \<and> (imp \<noteq> 5 \<and> imp \<noteq> 4 \<longrightarrow> importanceIcon imp = NoIcon)"
proof -
  have groups: "(\<forall>e \<in> set evs. 1 \<le> importance e \<and> importance e \<le> 5) \<longrightarrow>
      highImpactEvents evs = filter (\<lambda>e. importance e = 4 \<or> importance e = 5) evs
      \<and> mediumImpactEvents evs = filter (\<lambda>e. importance e = 3) evs
      \<and> lowImpactEvents evs = filter (\<lambda>e. importance e = 1 \<or> importance e = 2) evs"
    by (simp add: groups_in_range mediumImpactEvents_def)
  have badge: "getImportanceColor 5 = ''bg-red-100 dark:bg-red-900 text-red-800 dark:text-red-200''
      \<and> getImportanceColor 4
          = ''bg-orange-100 dark:bg-orange-900 text-orange-800 dark:text-orange-200''
      \<and> getImportanceColor 3
          = ''bg-yellow-100 dark:bg-yellow-900 text-yellow-800 dark:text-yellow-200''
      \<and> getImportanceColor 2
          = ''bg-blue-100 dark:bg-blue-900 text-blue-800 dark:text-blue-200''
      \<and> (imp \<noteq> 5 \<and> imp \<noteq> 4 \<and> imp \<noteq> 3 \<and> imp \<noteq> 2 \<longrightarrow>
          getImportanceColor imp
            = ''bg-gray-100 dark:bg-gray-900 text-gray-800 dark:text-gray-200'')"
    by (simp add: getImportanceColor_def)
  have icon: "importanceIcon 5 = Fire \<and> importanceIcon 4 = Warning
      \<and> (imp \<noteq> 5 \<and> imp \<noteq> 4 \<longrightarrow> importanceIcon imp = NoIcon)"
    by (simp add: importanceIcon_def)
  from groups badge icon show ?thesis by blast
qed

theorem importance_tiers_witness:
  "map importance (highImpactEvents initialEvents) = [5, 4, 4]
   \<and> map importance (mediumImpactEvents initialEvents) = [3, 3]
   \<and> map importance (lowImpactEvents initialEvents) = [2, 2]
   \<and> getImportanceColor 1 = ''bg-gray-100 dark:bg-gray-900 text-gray-800 dark:text-gray-200''
   \<and> importanceIcon 1 = NoIcon"
proof -
  from importance_tiers [of initialEvents 1] initial_importance
  have "highImpactEvents initialEvents
        = filter (\<lambda>e. importance e = 4 \<or> importance e = 5) initialEvents
      \<and> mediumImpactEvents initialEvents = filter (\<lambda>e. importance e = 3) initialEvents
      \<and> lowImpactEvents initialEvents
        = filter (\<lambda>e. importance e = 1 \<or> importance e = 2) initialEvents
      \<and> getImportanceColor 1 = ''bg-gray-100 dark:bg-gray-900 text-gray-800 dark:text-gray-200''
      \<and> importanceIcon 1 = NoIcon"
    by simp
  then show ?thesis by (simp add: initialEvents_def)
qed

section \<open>The displayed events and the selected date\<close>

text \<open>
  Claim C1. The claim has the displayed list be the events of the selected date.
  The component renders all its events whatever the selected date is: with the
  date input set to 2026-02-14 it still shows the seven events of the initial
  state, where the filter of the claim, with every event released on 2026-02-13,
  gives the empty list.
\<close>

theorem displayed_events_ignore_selected_date:
  "displayedEvents (setSelectedDate date st) = events st
   \<and> displayedEvents (setSelectedDate ''2026-02-14'' initialCalendar) = initialEvents
   \<and> length initialEvents = 7
   \<and> filterEventsByDate (\<lambda>event. ''2026-02-13'') initialEvents ''2026-02-14'' = []"
  by (simp add: displayedEvents_def setSelectedDate_def initialCalendar_def
      filterEventsByDate_def initialEvents_def)

section \<open>The surprise of an event\<close>

lemma parseDecimal_initial:
  "parseDecimal ''3.1%'' = Some 3.1"
  "parseDecimal ''3.2%'' = Some 3.2"
  "parseDecimal ''+0.6%'' = Some 0.6"
  "parseDecimal ''+0.4%'' = Some 0.4"
  "parseDecimal ''+0.2%'' = Some 0.2"
  "parseDecimal ''+0.1%'' = Some 0.1"
  "parseDecimal ''4.85%'' = Some 4.85"
  "parseDecimal ''4.82%'' = Some 4.82"
  "parseDecimal ''4.25%'' = Some 4.25"
  "parseDecimal ''4.28%'' = Some 4.28"
  "parseDecimal ''N/A'' = None"
  "parseDecimal ''Completed'' = None"
  "parseDecimal ''Scheduled'' = None"
  by (simp_all add: parseDecimal_def stripPercent_def isDigit_def digitsValue_def
      digitValue_def)

lemma classifySurprise_non_numeric:
  "parseDecimal act = None \<or> parseDecimal fc = None \<Longrightarrow> classifySurprise act fc = Neutral"
  by (auto simp: classifySurprise_def split: option.splits)

lemma classifySurprise_numeric:
  assumes "parseDecimal act = Some x" and "parseDecimal fc = Some y"
  shows "classifySurprise act fc = Positive \<longleftrightarrow> y < x"
    and "classifySurprise act fc = Negative \<longleftrightarrow> x < y"
    and "classifySurprise act fc = Neutral \<longleftrightarrow> x = y"
  using assms by (auto simp: classifySurprise_def)

text \<open>
  Claim C3 has the surprise of every displayed event be \<open>classifySurprise\<close> of its
  actual and forecast. The first event of the initial state has actual 3.1%,
  forecast 3.2% and carries \<open>positive\<close>, where \<open>classifySurprise\<close> gives \<open>negative\<close>.
\<close>

theorem stored_surprise_counterexample:
  "actual (hd (displayedEvents initialCalendar)) = ''3.1%''
   \<and> forecast (hd (displayedEvents initialCalendar)) = ''3.2%''
   \<and> surprise (hd (displayedEvents initialCalendar)) = Positive
   \<and> classifySurprise (actual (hd (displayedEvents initialCalendar)))
        (forecast (hd (displayedEvents initialCalendar))) = Negative"
  by (simp add: displayedEvents_def initialCalendar_def initialEvents_def
      classifySurprise_def parseDecimal_initial)

text \<open>
  Claim C3, amended. \<open>classifySurprise\<close> is neutral whenever one of the two strings
  is non-numeric; when both are signed decimals it is positive exactly when the
  actual is above the forecast, negative exactly when it is below and neutral
  exactly when they are equal; for 3.1% against 3.2% it is negative. The surprise a
  displayed event carries is the field stored in its record: of the seven initial
  events, those with ids 2, 3, 6 and 7 carry the value \<open>classifySurprise\<close> gives
  and those with ids 1, 4 and 5 do not.
\<close>

theorem classifySurprise_and_stored_surprise:
  "(parseDecimal act = None \<or> parseDecimal fc = None \<longrightarrow> classifySurprise act fc = Neutral)
   \<and> (parseDecimal act = Some x \<and> parseDecimal fc = Some y \<longrightarrow>
        (classifySurprise act fc = Positive \<longleftrightarrow> y < x)
        \<and> (classifySurprise act fc = Negative \<longleftrightarrow> x < y)
        \<and> (classifySurprise act fc = Neutral \<longleftrightarrow> x = y))
   \<and> classifySurprise ''3.1%'' ''3.2%'' = Negative
   \<and> classifySurprise ''+0.6%'' ''+0.4%'' = Positive
   \<and> classifySurprise ''Completed'' ''N/A'' = Neutral
   \<and> map surprise (displayedEvents st) = map surprise (events st)
   \<and> map (\<lambda>e. surprise e = classifySurprise (actual e) (forecast e))
        (displayedEvents initialCalendar)
      = [False, True, True, False, False, True, True]"
proof -
  have non_numeric: "parseDecimal act = None \<or> parseDecimal fc = None \<longrightarrow>
      classifySurprise act fc = Neutral"
    using classifySurprise_non_numeric by blast
  have numeric: "parseDecimal act = Some x \<and> parseDecimal fc = Some y \<longrightarrow>
      (classifySurprise act fc = Positive \<longleftrightarrow> y < x)
      \<and> (classifySurprise act fc = Negative \<longleftrightarrow> x < y)
      \<and> (classifySurprise act fc = Neutral \<longleftrightarrow> x = y)"
    using classifySurprise_numeric by blast
  have examples: "classifySurprise ''3.1%'' ''3.2%'' = Negative
      \<and> classifySurprise ''+0.6%'' ''+0.4%'' = Positive
      \<and> classifySurprise ''Completed'' ''N/A'' = Neutral"
    by (simp add: classifySurprise_def parseDecimal_initial)
  have stored: "map surprise (displayedEvents st) = map surprise (events st)"
    by (simp add: displayedEvents_def)
  have initial: "map (\<lambda>e. surprise e = classifySurprise (actual e) (forecast e))
        (displayedEvents initialCalendar)
      = [False, True, True, False, False, True, True]"
    by (simp add: displayedEvents_def initialCalendar_def initialEvents_def
        classifySurprise_def parseDecimal_initial)
  from non_numeric numeric examples stored initial show ?thesis by blast
qed

theorem classifySurprise_and_stored_surprise_witness:
  "classifySurprise ''Scheduled'' ''N/A'' = Neutral
   \<and> classifySurprise ''4.28%'' ''4.25%'' = Positive
   \<and> classifySurprise ''4.82%'' ''4.85%'' = Negative
   \<and> map surprise (displayedEvents initialCalendar)
      = [Positive, Positive, Negative, Positive, Negative, Neutral, Neutral]"
proof -
  have a: "classifySurprise ''Scheduled'' ''N/A'' = Neutral"
    using classifySurprise_and_stored_surprise [of "''Scheduled''" "''N/A''"]
    by (simp add: parseDecimal_initial)
  have b: "classifySurprise ''4.28%'' ''4.25%'' = Positive"
    using classifySurprise_and_stored_surprise [of "''4.28%''" "''4.25%''" "4.28" "4.25"]
    by (simp add: parseDecimal_initial)
  have c: "classifySurprise ''4.82%'' ''4.85%'' = Negative"
    using classifySurprise_and_stored_surprise [of "''4.82%''" "''4.85%''" "4.82" "4.85"]
    by (simp add: parseDecimal_initial)
  have d: "map surprise (displayedEvents initialCalendar)
      = [Positive, Positive, Negative, Positive, Negative, Neutral, Neutral]"
    using classifySurprise_and_stored_surprise [of _ _ _ _ initialCalendar]
    by (simp add: initialCalendar_def initialEvents_def)
  from a b c d show ?thesis by blast
qed

section \<open>Creating a strategy\<close>

lemma toString_digit: "n < 10 \<Longrightarrow> toString n = [''0123456789'' ! n]"
  by (subst toString.simps) simp

lemma toString_more:
  "\<not> n < 10 \<Longrightarrow> toString n = toString (n div 10) @ [''0123456789'' ! (n mod 10)]"
  by (subst toString.simps) simp

lemma toString_not_Nil: "toString n \<noteq> []"
  by (subst toString.simps) simp

lemma digit_char_inj:
  assumes "i < 10" and "j < 10" and "''0123456789'' ! i = ''0123456789'' ! j"
  shows "i = (j :: nat)"
proof -
  have "distinct ''0123456789''" by simp
  moreover have "i < length ''0123456789''" "j < length ''0123456789''"
    using assms by simp_all
  ultimately show ?thesis using assms(3) by (simp only: nth_eq_iff_index_eq)
qed

lemma toString_inj: "toString m = toString n \<Longrightarrow> m = n"
proof (induction m arbitrary: n rule: toString.induct)
  case (1 m)
  show ?case
  proof (cases "m < 10")
    case True
    then have m: "toString m = [''0123456789'' ! m]" by (rule toString_digit)
    have "n < 10"
    proof (rule ccontr)
      assume "\<not> n < 10"
      then have "toString n = toString (n div 10) @ [''0123456789'' ! (n mod 10)]"
        by (rule toString_more)
      with m "1.prems" toString_not_Nil [of "n div 10"] show False by simp
    qed
    then have "toString n = [''0123456789'' ! n]" by (rule toString_digit)
    with m "1.prems" have "''0123456789'' ! m = ''0123456789'' ! n" by simp
    with True \<open>n < 10\<close> show ?thesis by (rule digit_char_inj)
  next
    case False
    then have m: "toString m = toString (m div 10) @ [''0123456789'' ! (m mod 10)]"
      by (rule toString_more)
    have "\<not> n < 10"
    proof
      assume "n < 10"
      then have "toString n = [''0123456789'' ! n]" by (rule toString_digit)
      with m "1.prems" toString_not_Nil [of "m div 10"] show False by simp
    qed
    then have n: "toString n = toString (n div 10) @ [''0123456789'' ! (n mod 10)]"
      by (rule toString_more)
    from m n "1.prems" have pre: "toString (m div 10) = toString (n div 10)"
      and lst: "''0123456789'' ! (m mod 10) = ''0123456789'' ! (n mod 10)"
      by simp_all
    from "1.IH" [OF False pre] have "m div 10 = n div 10" .
    moreover have "m mod 10 = n mod 10"
      using lst by (intro digit_char_inj) simp_all
    ultimately show ?thesis by (metis div_mult_mod_eq)
  qed
qed

text \<open>A name is empty after trimming exactly when it consists of white space only.\<close>

lemma trim_empty_iff: "trim s = [] \<longleftrightarrow> (\<forall>c \<in> set s. isWhiteSpace c)"
proof
  assume "trim s = []"
  then have all: "\<forall>c \<in> set (dropWhile isWhiteSpace s). isWhiteSpace c"
    by (simp add: trim_def dropWhile_eq_Nil_conv)
  have "dropWhile isWhiteSpace s = []"
  proof (rule ccontr)
    assume ne: "dropWhile isWhiteSpace s \<noteq> []"
    then have "\<not> isWhiteSpace (hd (dropWhile isWhiteSpace s))" by (rule hd_dropWhile)
    moreover from ne have "hd (dropWhile isWhiteSpace s) \<in> set (dropWhile isWhiteSpace s)"
      by (rule hd_in_set)
    ultimately show False using all by blast
  qed
  then show "\<forall>c \<in> set s. isWhiteSpace c" by (simp add: dropWhile_eq_Nil_conv)
next
  assume "\<forall>c \<in> set s. isWhiteSpace c"
  then show "trim s = []"
    by (auto simp: trim_def dropWhile_eq_Nil_conv dest: set_dropWhileD)
qed

lemma create_accepts:
  assumes "trim (NewStrategy.name (newStrategy st)) \<noteq> []"
  shows "handleCreateStrategy now st =
    st\<lparr> strategies :=
          \<lparr> id = toString now,
            name = NewStrategy.name (newStrategy st),
            description = NewStrategy.description (newStrategy st),
            assetClass = NewStrategy.assetClass (newStrategy st),
            sharpeRatio = Num 0, totalReturn = Num 0, maxDrawdown = Num 0,
            status = Backtesting \<rparr> # strategies st,
        newStrategy := emptyForm \<rparr>"
  using assms by (simp add: handleCreateStrategy_def emptyForm_def)

lemma initial_ids:
  "map Strategy.id initialStrategies = [''1'', ''2'', ''3'', ''4'', ''5'']"
  by (simp add: initialStrategies_def)

lemma toString_example: "toString 1770000000000 = ''1770000000000''"
  by (simp add: toString_digit toString_more)

text \<open>
  Claim C7 promises the new strategy a unique id. The id is the clock's reading when
  the handler runs: two strategies created at the same reading, here 1770000000000,
  get the same id.
\<close>

theorem createStrategy_unique_id_counterexample:
  "map Strategy.id
     (strategies
       (handleCreateStrategy 1770000000000
         (setName ''B''
           (handleCreateStrategy 1770000000000 (setName ''A'' initialBuilder)))))
   = [''1770000000000'', ''1770000000000'', ''1'', ''2'', ''3'', ''4'', ''5'']"
  by (simp add: handleCreateStrategy_def setName_def initialBuilder_def emptyForm_def
      trim_def isWhiteSpace_def toString_example initial_ids)

text \<open>
  Claim C7, amended. When the name of the form is not empty after trimming, the
  handler puts exactly one new strategy at the head of the list: its id is the
  decimal string of the clock's reading, its name, description and asset class are
  the form's, its three metrics are 0 and its status is backtesting. The form
  starts, and is left again, with empty texts and the asset class equities, so a
  strategy created without choosing an asset class is an equities strategy. The new
  id is unique in the list whenever the old ids are distinct and none of them is
  that decimal string; readings of the clock that differ give strings that differ.
\<close>

theorem createStrategy_prepends:
  assumes "trim (NewStrategy.name (newStrategy st)) \<noteq> []"
  shows "strategies (handleCreateStrategy now st) =
      \<lparr> id = toString now,
        name = NewStrategy.name (newStrategy st),
        description = NewStrategy.description (newStrategy st),
        assetClass = NewStrategy.assetClass (newStrategy st),
        sharpeRatio = Num 0, totalReturn = Num 0, maxDrawdown = Num 0,
        status = Backtesting \<rparr> # strategies st
    \<and> length (strategies (handleCreateStrategy now st)) = Suc (length (strategies st))
    \<and> newStrategy (handleCreateStrategy now st) = emptyForm
    \<and> NewStrategy.assetClass emptyForm = Equities
    \<and> newStrategy initialBuilder = emptyForm
    \<and> (distinct (map Strategy.id (strategies st))
        \<and> toString now \<notin> set (map Strategy.id (strategies st)) \<longrightarrow>
          distinct (map Strategy.id (strategies (handleCreateStrategy now st))))
    \<and> (\<forall>earlier. earlier \<noteq> now \<longrightarrow> toString earlier \<noteq> toString now)"
proof -
  note step = create_accepts [OF assms, of now]
  have inj: "\<forall>earlier. earlier \<noteq> now \<longrightarrow> toString earlier \<noteq> toString now"
    using toString_inj by blast
  have form: "NewStrategy.assetClass emptyForm = Equities \<and> newStrategy initialBuilder = emptyForm"
    by (simp add: emptyForm_def initialBuilder_def)
  from step inj form show ?thesis by simp
qed

theorem createStrategy_prepends_witness:
  "strategies (handleCreateStrategy 1770000000000 (setName ''X'' initialBuilder)) =
      \<lparr> id = ''1770000000000'', name = ''X'', description = '''', assetClass = Equities,
        sharpeRatio = Num 0, totalReturn = Num 0, maxDrawdown = Num 0,
        status = Backtesting \<rparr> # initialStrategies
   \<and> newStrategy (handleCreateStrategy 1770000000000 (setName ''X'' initialBuilder))
       = emptyForm
   \<and> distinct (map Strategy.id
        (strategies (handleCreateStrategy 1770000000000 (setName ''X'' initialBuilder))))"
proof -
  let ?st = "setName ''X'' initialBuilder"
  have accepted: "trim (NewStrategy.name (newStrategy ?st)) \<noteq> []"
    by (simp add: setName_def trim_def isWhiteSpace_def)
  have fresh: "distinct (map Strategy.id (strategies ?st))
      \<and> toString 1770000000000 \<notin> set (map Strategy.id (strategies ?st))"
    by (simp add: setName_def initialBuilder_def initial_ids toString_example)
  from createStrategy_prepends [OF accepted, of 1770000000000] fresh
  have "strategies (handleCreateStrategy 1770000000000 ?st) =
        \<lparr> id = toString 1770000000000,
          name = NewStrategy.name (newStrategy ?st),
          description = NewStrategy.description (newStrategy ?st),
          assetClass = NewStrategy.assetClass (newStrategy ?st),
          sharpeRatio = Num 0, totalReturn = Num 0, maxDrawdown = Num 0,
          status = Backtesting \<rparr> # strategies ?st
      \<and> newStrategy (handleCreateStrategy 1770000000000 ?st) = emptyForm
      \<and> distinct (map Strategy.id (strategies (handleCreateStrategy 1770000000000 ?st)))"
    by blast
  then show ?thesis
    by (simp add: setName_def initialBuilder_def emptyForm_def toString_example initial_ids)
qed

text \<open>
  Claim C8. When the name of the form is empty after trimming, the handler returns
  the state it was given: the strategy list and the form are unchanged, and the
  handler has no error result.
\<close>

theorem createStrategy_empty_name_noop:
  assumes "trim (NewStrategy.name (newStrategy st)) = []"
  shows "handleCreateStrategy now st = st"
  using assms by (simp add: handleCreateStrategy_def)

theorem createStrategy_empty_name_noop_witness:
  "handleCreateStrategy 1770000000000 (setName ''  '' initialBuilder)
     = setName ''  '' initialBuilder
   \<and> strategies (handleCreateStrategy 1770000000000 (setName ''  '' initialBuilder))
     = initialStrategies"
proof -
  let ?st = "setName ''  '' initialBuilder"
  have rejected: "trim (NewStrategy.name (newStrategy ?st)) = []"
    by (simp add: setName_def trim_def isWhiteSpace_def)
  from createStrategy_empty_name_noop [OF rejected, of 1770000000000]
  show ?thesis by (simp add: setName_def initialBuilder_def)
qed

end
